theory Spec2Isabelle
  imports Complex_Main "HOL-Library.AList" "HOL-Library.Multiset"
begin

section \<open>Numbers: numpy floats with exact finite arithmetic\<close>

text \<open>
  The sampler computes with numpy \<^verbatim>\<open>float64\<close> values. They are modelled as
  the real numbers extended by the three IEEE special values the code can produce
  (\<^verbatim>\<open>inf\<close>, \<^verbatim>\<open>-inf\<close>, \<^verbatim>\<open>nan\<close>): arithmetic on finite values is exact (no
  rounding, no overflow, no signed zero), arithmetic on special values follows IEEE 754
  as numpy implements it (a division by zero is a warning and yields \<^verbatim>\<open>inf\<close> or
  \<^verbatim>\<open>nan\<close>; it does not raise).
\<close>

datatype npfloat = Fin real | PInf | NInf | NaN

definition inf_signed :: "real \<Rightarrow> npfloat" where
  "inf_signed s = (if s = 0 then NaN else if 0 < s then PInf else NInf)"

instantiation npfloat :: "{zero, one, plus, uminus, minus, times, inverse, abs, ord}"
begin

definition zero_npfloat :: npfloat where
  "zero_npfloat = Fin 0"

definition one_npfloat :: npfloat where
  "one_npfloat = Fin 1"

fun plus_npfloat :: "npfloat \<Rightarrow> npfloat \<Rightarrow> npfloat" where
  "plus_npfloat NaN y = NaN"
| "plus_npfloat x NaN = NaN"
| "plus_npfloat (Fin a) (Fin b) = Fin (a + b)"
| "plus_npfloat PInf NInf = NaN"
| "plus_npfloat NInf PInf = NaN"
| "plus_npfloat PInf y = PInf"
| "plus_npfloat x PInf = PInf"
| "plus_npfloat NInf y = NInf"
| "plus_npfloat x NInf = NInf"

fun uminus_npfloat :: "npfloat \<Rightarrow> npfloat" where
  "uminus_npfloat (Fin a) = Fin (- a)"
| "uminus_npfloat PInf = NInf"
| "uminus_npfloat NInf = PInf"
| "uminus_npfloat NaN = NaN"

definition minus_npfloat :: "npfloat \<Rightarrow> npfloat \<Rightarrow> npfloat" where
  "minus_npfloat x y = x + (- y)"

fun times_npfloat :: "npfloat \<Rightarrow> npfloat \<Rightarrow> npfloat" where
  "times_npfloat NaN y = NaN"
| "times_npfloat x NaN = NaN"
| "times_npfloat (Fin a) (Fin b) = Fin (a * b)"
| "times_npfloat (Fin a) PInf = inf_signed a"
| "times_npfloat (Fin a) NInf = inf_signed (- a)"
| "times_npfloat PInf (Fin b) = inf_signed b"
| "times_npfloat NInf (Fin b) = inf_signed (- b)"
| "times_npfloat PInf PInf = PInf"
| "times_npfloat NInf NInf = PInf"
| "times_npfloat PInf NInf = NInf"
| "times_npfloat NInf PInf = NInf"

fun divide_npfloat :: "npfloat \<Rightarrow> npfloat \<Rightarrow> npfloat" where
  "divide_npfloat NaN y = NaN"
| "divide_npfloat x NaN = NaN"
| "divide_npfloat (Fin a) (Fin b) = (if b = 0 then inf_signed a else Fin (a / b))"
| "divide_npfloat (Fin a) y = Fin 0"
| "divide_npfloat PInf (Fin b) = (if 0 \<le> b then PInf else NInf)"
| "divide_npfloat NInf (Fin b) = (if 0 \<le> b then NInf else PInf)"
| "divide_npfloat x y = NaN"

definition inverse_npfloat :: "npfloat \<Rightarrow> npfloat" where
  "inverse_npfloat x = divide (Fin 1) (x::npfloat)"

fun abs_npfloat :: "npfloat \<Rightarrow> npfloat" where
  "abs_npfloat (Fin a) = Fin \<bar>a\<bar>"
| "abs_npfloat PInf = PInf"
| "abs_npfloat NInf = PInf"
| "abs_npfloat NaN = NaN"

fun less_npfloat :: "npfloat \<Rightarrow> npfloat \<Rightarrow> bool" where
  "less_npfloat NaN y = False"
| "less_npfloat x NaN = False"
| "less_npfloat (Fin a) (Fin b) = (a < b)"
| "less_npfloat x NInf = False"
| "less_npfloat PInf y = False"
| "less_npfloat x y = True"

fun less_eq_npfloat :: "npfloat \<Rightarrow> npfloat \<Rightarrow> bool" where
  "less_eq_npfloat NaN y = False"
| "less_eq_npfloat x NaN = False"
| "less_eq_npfloat (Fin a) (Fin b) = (a \<le> b)"
| "less_eq_npfloat NInf y = True"
| "less_eq_npfloat x PInf = True"
| "less_eq_npfloat x y = False"

instance ..

end

text \<open>\<^verbatim>\<open>np.exp\<close> and \<^verbatim>\<open>np.sqrt\<close> on one value.\<close>

fun np_exp :: "npfloat \<Rightarrow> npfloat" where
  "np_exp (Fin a) = Fin (exp a)"
| "np_exp PInf = PInf"
| "np_exp NInf = Fin 0"
| "np_exp NaN = NaN"

fun np_sqrt :: "npfloat \<Rightarrow> npfloat" where
  "np_sqrt (Fin a) = (if a < 0 then NaN else Fin (sqrt a))"
| "np_sqrt PInf = PInf"
| "np_sqrt NInf = NaN"
| "np_sqrt NaN = NaN"

text \<open>With exact finite arithmetic, addition is a commutative monoid: sums do not
  depend on the order of the summands.\<close>

lemma npfloat_add_assoc: "(u + v) + w = u + (v + w)" for u v w :: npfloat
  by (cases u; cases v; cases w; simp)

lemma npfloat_add_commute: "u + v = v + u" for u v :: npfloat
  by (cases u; cases v; simp)

lemma npfloat_add_zero: "Fin 0 + u = u"
  by (cases u; simp)

instance npfloat :: comm_monoid_add
proof
  fix u v w :: npfloat
  show "u + v + w = u + (v + w)" by (rule npfloat_add_assoc)
  show "u + v = v + u" by (rule npfloat_add_commute)
  show "0 + u = u" unfolding zero_npfloat_def by (rule npfloat_add_zero)
qed

section \<open>Python exceptions and sequencing\<close>

text \<open>
  A Python exception ends the computation that raises it. A computation that may raise
  returns \<open>pyerror + 'a\<close>; \<open>bindE\<close> is sequencing, \<open>mapE\<close> a list comprehension
  and \<open>foldE\<close> a \<^verbatim>\<open>for\<close> loop over a list, each stopping at the first exception.
\<close>

datatype pyerror = IndexError | ValueError | ZeroDivisionError | TypeError | OtherError

definition bindE :: "pyerror + 'a \<Rightarrow> ('a \<Rightarrow> pyerror + 'b) \<Rightarrow> pyerror + 'b" where
  "bindE m f = (case m of Inl e \<Rightarrow> Inl e | Inr v \<Rightarrow> f v)"

fun mapE :: "('a \<Rightarrow> pyerror + 'b) \<Rightarrow> 'a list \<Rightarrow> pyerror + 'b list" where
  "mapE f [] = Inr []"
| "mapE f (x # xs) = bindE (f x) (\<lambda>y. bindE (mapE f xs) (\<lambda>ys. Inr (y # ys)))"

fun foldE :: "('s \<Rightarrow> 'a \<Rightarrow> pyerror + 's) \<Rightarrow> 's \<Rightarrow> 'a list \<Rightarrow> pyerror + 's" where
  "foldE f s [] = Inr s"
| "foldE f s (x # xs) = bindE (f s x) (\<lambda>s'. foldE f s' xs)"

text \<open>\<^verbatim>\<open>xs[j]\<close> on a Python list or a numpy array: a negative index counts from
  the end, an index out of range raises \<^verbatim>\<open>IndexError\<close>.\<close>

definition py_index :: "'a list \<Rightarrow> int \<Rightarrow> pyerror + 'a" where
  "py_index xs j =
     (let n = int (length xs)
      in if 0 \<le> j \<and> j < n then Inr (xs ! nat j)
         else if - n \<le> j \<and> j < 0 then Inr (xs ! nat (j + n))
         else Inl IndexError)"

text \<open>\<^verbatim>\<open>xs[j] *= x\<close> on a numpy array.\<close>

definition np_imul :: "npfloat list \<Rightarrow> int \<Rightarrow> npfloat \<Rightarrow> pyerror + npfloat list" where
  "np_imul xs j x =
     (let n = int (length xs)
      in if 0 \<le> j \<and> j < n then Inr (xs[nat j := xs ! nat j * x])
         else if - n \<le> j \<and> j < 0 then Inr (xs[nat (j + n) := xs ! nat (j + n) * x])
         else Inl IndexError)"

text \<open>Python 2 true division of two integers (\<^verbatim>\<open>from __future__ import division\<close>).\<close>

definition py_truediv :: "int \<Rightarrow> int \<Rightarrow> pyerror + npfloat" where
  "py_truediv a b = (if b = 0 then Inl ZeroDivisionError else Inr (Fin (real_of_int a / real_of_int b)))"

section \<open>The numpy functions the sampler calls\<close>

fun cumsum_from :: "npfloat \<Rightarrow> npfloat list \<Rightarrow> npfloat list" where
  "cumsum_from a [] = []"
| "cumsum_from a (x # xs) = (a + x) # cumsum_from (a + x) xs"

definition np_cumsum :: "npfloat list \<Rightarrow> npfloat list" where
  "np_cumsum xs = cumsum_from 0 xs"

text \<open>\<^verbatim>\<open>np.prod\<close> of 64-bit integers: the product wraps around.\<close>

definition wrap64 :: "int \<Rightarrow> int" where
  "wrap64 x = (x + 2 ^ 63) mod 2 ^ 64 - 2 ^ 63"

definition np_prod :: "int list \<Rightarrow> int" where
  "np_prod xs = wrap64 (prod_list xs)"

text \<open>\<^verbatim>\<open>np.max\<close> propagates \<^verbatim>\<open>nan\<close> and raises on an empty array.\<close>

definition np_maximum :: "npfloat \<Rightarrow> npfloat \<Rightarrow> npfloat" where
  "np_maximum a b = (if a = NaN \<or> b = NaN then NaN else if a < b then b else a)"

fun np_max :: "npfloat list \<Rightarrow> pyerror + npfloat" where
  "np_max [] = Inl ValueError"
| "np_max (x # xs) = Inr (foldl np_maximum x xs)"

text \<open>\<^verbatim>\<open>np.linalg.norm\<close> of a vector, and \<^verbatim>\<open>np.linalg.norm(pt - cube_pts, axis=1)\<close>:
  the distance of a point to every row of a matrix. An empty matrix has no axis 1 and
  rows of another length than the point do not subtract: both raise. (numpy would
  stretch a row or a point of length one; points here have one coordinate per grid
  dimension.)\<close>

definition np_norm :: "npfloat list \<Rightarrow> npfloat" where
  "np_norm xs = np_sqrt (sum_list (map (\<lambda>x. x * x) xs))"

definition row_dists :: "npfloat list \<Rightarrow> npfloat list list \<Rightarrow> pyerror + npfloat list" where
  "row_dists pt rows =
     (if rows = [] \<or> \<not> list_all (\<lambda>row. length row = length pt) rows then Inl ValueError
      else Inr (map (\<lambda>row. np_norm (map2 (\<lambda>a b. a - b) pt row)) rows))"

section \<open>Data model\<close>

text \<open>
  A grid is a numpy matrix with one row per dimension and four columns: the lower
  bound, the upper bound, the number of grid points and the cell width of the dimension
  (\<^verbatim>\<open>grid[:,0]\<close> to \<^verbatim>\<open>grid[:,3]\<close>). The matrix has one element type, 64-bit
  integers or floats (\<open>grid_dtype\<close> below); the third column holds whole numbers.
  A cell index is a tuple of integers, a cell id an integer, a point and a signature
  (Lyapunov exponents) a vector.
\<close>

record grid_row =
  col0 :: npfloat
  col1 :: npfloat
  col2 :: int
  col3 :: npfloat

datatype np_dtype = Int64 | Float64

type_synonym grid = "grid_row list"
type_synonym index = "int list"
type_synonym point = "npfloat list"
type_synonym signature = "npfloat list"

text \<open>The record a simulator returns: \<^verbatim>\<open>results.PermStorage['Data']\<close>,
  \<^verbatim>\<open>results.PermStorage['Step']\<close>, \<^verbatim>\<open>results.TempStorage['Data']\<close> and
  \<^verbatim>\<open>results.TempStorage['Lyapunov']\<close>.\<close>

record results =
  PermData :: "point list"
  PermStep :: "npfloat list"
  TempData :: "point list"
  TempLyapunov :: "signature list"

text \<open>A boundary accumulator is a Python dictionary from cell indices to a pair
  \<^verbatim>\<open>[weighted decay, weight]\<close>: an association list with distinct keys, iterated in
  list order.\<close>

type_synonym bnd = "(index \<times> (npfloat \<times> npfloat)) list"

text \<open>What one call of \<^verbatim>\<open>LE\<close> returns: \<^verbatim>\<open>[group_ids,les,endpts,bnd_ind_sum]\<close>.\<close>

type_synonym group = "int list \<times> signature list \<times> point list \<times> bnd"

text \<open>
  The functions the module imports and does not define. \<^verbatim>\<open>np.random.choice\<close> reads
  and advances the generator state \<open>'r\<close>. The eight functions of
  \<^verbatim>\<open>VISolver.BoA.Utilities\<close> are parameters of the model: every theorem below holds
  for any implementation of them. \<^verbatim>\<open>ind2pt\<close> takes its optional \<^verbatim>\<open>checkBnds\<close> as an
  option; \<^verbatim>\<open>adjustLEs2Ref\<close>, which works in place, returns the adjusted list;
  the number of boundary pairs that \<^verbatim>\<open>update_Prob_Data\<close> returns is a Python
  integer, so that line 152 is a division of Python numbers and raises on a zero divisor.
\<close>

record ('d, 'k, 'v, 'r) lib =
  random_choice :: "'r \<Rightarrow> int list \<Rightarrow> int \<Rightarrow> npfloat list \<Rightarrow> pyerror + (int list \<times> 'r)"
  int2ind :: "int \<Rightarrow> int list \<Rightarrow> pyerror + index"
  ind2pt :: "index \<Rightarrow> grid \<Rightarrow> bool option \<Rightarrow> pyerror + point"
  ind2int :: "index \<Rightarrow> int list \<Rightarrow> pyerror + int"
  pt2inds :: "point \<Rightarrow> grid \<Rightarrow> pyerror + index list"
  neighbors :: "index \<Rightarrow> grid \<Rightarrow> npfloat \<Rightarrow> int \<Rightarrow> 'd \<Rightarrow> pyerror + (index list \<times> npfloat list)"
  update_LERef :: "signature list option \<Rightarrow> signature list \<Rightarrow> npfloat \<Rightarrow> ('k \<times> 'v) list
     \<Rightarrow> point list option \<Rightarrow> point list
     \<Rightarrow> pyerror + (signature list option \<times> ('k \<times> 'v) list \<times> point list option)"
  adjustLEs2Ref :: "signature list option \<Rightarrow> signature list \<Rightarrow> pyerror + signature list"
  update_Prob_Data :: "int list \<Rightarrow> int list \<Rightarrow> grid \<Rightarrow> signature list \<Rightarrow> npfloat
     \<Rightarrow> npfloat list \<Rightarrow> npfloat \<Rightarrow> npfloat \<Rightarrow> ('k \<times> 'v) list
     \<Rightarrow> pyerror + (npfloat list \<times> ('k \<times> 'v) list \<times> int \<times> int set)"

text \<open>The arguments of \<^verbatim>\<open>MCT\<close>. The worker pool only distributes the calls of
  \<^verbatim>\<open>LE\<close>: \<^verbatim>\<open>pool.map(LE,x)\<close> and \<^verbatim>\<open>[LE(xi) for xi in x]\<close> are the same list.\<close>

record ('a, 'd) mct_args =
  sim :: "point \<Rightarrow> 'a \<Rightarrow> pyerror + results"
  args :: 'a
  grid :: grid
  grid_dtype :: np_dtype
  nodes :: int
  parallel :: bool
  limit :: int
  AVG :: npfloat
  eta_1 :: npfloat
  eta_2 :: npfloat
  eps :: npfloat
  L :: int
  q :: int
  r :: npfloat
  Dinv :: 'd

text \<open>The local variables of \<^verbatim>\<open>MCT\<close> that live across iterations, and the state of
  the random generator.\<close>

record ('k, 'v, 'r) mct_state =
  p :: "npfloat list"
  ref :: "signature list option"
  ref_ept :: "point list option"
  data :: "('k \<times> 'v) list"
  B_pairs :: int
  bndry_ids_master :: "int set"
  starts :: "int set"
  i :: int
  avg :: npfloat
  rng :: 'r

section \<open>The trajectory worker \<^verbatim>\<open>LE\<close>\<close>

text \<open>Lines 67 to 72: one corner of the current cube. A corner inside the monitored
  rectangle gets an entry \<^verbatim>\<open>[0,0]\<close> if it has none, then the weighted decay \<open>w\<close>
  and the weight \<open>dt\<close> are added to its entry.\<close>

definition record_corner :: "npfloat \<Rightarrow> npfloat \<Rightarrow> bnd \<Rightarrow> index \<times> bool \<Rightarrow> bnd" where
  "record_corner w dt bnd_ind_sum corner =
     (case corner of (cube_ind, inb) \<Rightarrow>
        if inb then
          AList.map_entry cube_ind (\<lambda>(a, b). (a + w, b + dt))
            (if map_of bnd_ind_sum cube_ind = None
             then AList.update cube_ind (0, 0) bnd_ind_sum else bnd_ind_sum)
        else bnd_ind_sum)"

text \<open>Lines 61 to 63: which rows of \<^verbatim>\<open>cube_pts\<close> lie within the monitored rectangle
  \<^verbatim>\<open>[grid[:,0], grid[:,1]]\<close>.\<close>

definition inbnds_of :: "grid \<Rightarrow> point list \<Rightarrow> pyerror + bool list" where
  "inbnds_of g cube_pts =
     (if cube_pts = [] \<or> \<not> list_all (\<lambda>cp. length cp = length g) cube_pts then Inl ValueError
      else Inr (map (\<lambda>cp. list_all (\<lambda>(x, row). col0 row \<le> x \<and> x \<le> col1 row) (zip cp g)) cube_pts))"

text \<open>Lines 48 to 72: one step \<^verbatim>\<open>(k, pt)\<close> of the walk along a trajectory. The state
  is the surrounding cube (its indices and its points) and the accumulator.\<close>

definition LE_step ::
  "('d, 'k, 'v, 'r) lib \<Rightarrow> ('a, 'd) mct_args \<Rightarrow> npfloat \<Rightarrow> npfloat \<Rightarrow> npfloat list \<Rightarrow> npfloat
     \<Rightarrow> npfloat list \<Rightarrow> index list \<times> point list \<times> bnd \<Rightarrow> nat \<times> point
     \<Rightarrow> pyerror + (index list \<times> point list \<times> bnd)" where
  "LE_step U E ddiag c t T Step st kpt =
     (case st of (cube_inds, cube_pts, bnd_ind_sum) \<Rightarrow>
      case kpt of (k, pt) \<Rightarrow>
        bindE (py_index t (int k)) (\<lambda>tk.
        bindE (py_index Step (int k)) (\<lambda>dt.
        bindE (row_dists pt cube_pts) (\<lambda>ds.
        bindE (if list_ex (\<lambda>d. ddiag < d) ds
               then bindE (pt2inds U pt (grid E)) (\<lambda>cube_inds'.
                    bindE (mapE (\<lambda>ind. ind2pt U ind (grid E) None) cube_inds') (\<lambda>cube_pts'.
                    bindE (row_dists pt cube_pts') (\<lambda>ds'.
                    Inr (cube_inds', cube_pts'))))
               else Inr (cube_inds, cube_pts)) (\<lambda>(cube_inds, cube_pts).
        bindE (inbnds_of (grid E) cube_pts) (\<lambda>inbnds.
        Inr (cube_inds, cube_pts,
             foldl (record_corner (np_exp (((- c) * tk) / T) * dt) dt) bnd_ind_sum
               (zip cube_inds inbnds))))))))"

text \<open>Lines 30 to 72: one starting point of the group. The simulation is run, its
  endpoint and its signature are recorded, and its trajectory is walked.\<close>

definition LE_traj ::
  "('d, 'k, 'v, 'r) lib \<Rightarrow> ('a, 'd) mct_args \<Rightarrow> npfloat \<Rightarrow> signature list \<times> point list \<times> bnd
     \<Rightarrow> point \<Rightarrow> pyerror + (signature list \<times> point list \<times> bnd)" where
  "LE_traj U E ddiag acc start =
     (case acc of (les, endpts, bnd_ind_sum) \<Rightarrow>
        bindE (sim E start (args E)) (\<lambda>results.
        bindE (py_index (TempData results) (- 1)) (\<lambda>endpt.
        bindE (py_index (TempLyapunov results) (- 1)) (\<lambda>le.
        bindE (np_max (map abs le)) (\<lambda>c.
        let t = np_cumsum (0 # butlast (PermStep results));
            T = last t
        in
        bindE (py_index (PermData results) 0) (\<lambda>pt0.
        bindE (pt2inds U pt0 (grid E)) (\<lambda>cube_inds.
        bindE (mapE (\<lambda>ind. ind2pt U ind (grid E) None) cube_inds) (\<lambda>cube_pts.
        bindE (foldE (LE_step U E ddiag c t T (PermStep results))
                 (cube_inds, cube_pts, bnd_ind_sum) (enumerate 0 (PermData results)))
          (\<lambda>(cube_inds', cube_pts', bnd_ind_sum').
        Inr (les @ [le], endpts @ [endpt], bnd_ind_sum'))))))))))"

text \<open>Lines 10 to 73: the worker, for one center index.\<close>

definition LE ::
  "('d, 'k, 'v, 'r) lib \<Rightarrow> ('a, 'd) mct_args \<Rightarrow> int list \<Rightarrow> index \<Rightarrow> pyerror + group" where
  "LE U E shape center_ind =
     bindE (neighbors U center_ind (grid E) (r E) (q E) (Dinv E)) (\<lambda>(selected, dists).
     let group_inds = center_ind # selected in
     bindE (mapE (\<lambda>ind. ind2int U ind shape) group_inds) (\<lambda>group_ids.
     bindE (mapE (\<lambda>ind. ind2pt U ind (grid E) (Some True)) group_inds) (\<lambda>group_pts.
     let ddiag = np_norm (map col3 (grid E)) in
     bindE (foldE (LE_traj U E ddiag) ([], [], []) group_pts) (\<lambda>(les, endpts, bnd_ind_sum).
     Inr (group_ids, les, endpts, bnd_ind_sum)))))"

section \<open>The sampling loop \<^verbatim>\<open>MCT\<close>\<close>

text \<open>Lines 113 to 121: the accumulators of the workers are merged into one.\<close>

definition merge_entry :: "bnd \<Rightarrow> index \<times> (npfloat \<times> npfloat) \<Rightarrow> bnd" where
  "merge_entry bnd_ind_sum_master kv =
     (case kv of (key, val) \<Rightarrow>
        AList.map_entry key (\<lambda>(a, b). (a + fst val, b + snd val))
          (if map_of bnd_ind_sum_master key = None
           then AList.update key (0, 0) bnd_ind_sum_master else bnd_ind_sum_master))"

text \<open>\<^verbatim>\<open>group[3]\<close>, the accumulator of a worker.\<close>

definition bnd_of :: "group \<Rightarrow> bnd" where
  "bnd_of g = (case g of (group_ids, les, endpts, bnd_ind_sum) \<Rightarrow> bnd_ind_sum)"

definition aggregate :: "group list \<Rightarrow> bnd" where
  "aggregate groups =
     foldl (\<lambda>master group. foldl merge_entry master (bnd_of group)) [] groups"

text \<open>Lines 144 to 148: the weight of the cell of every entry of the merged
  accumulator is multiplied by the entry's ratio, then the field is divided by its sum.\<close>

definition apply_bnd ::
  "('d, 'k, 'v, 'r) lib \<Rightarrow> int list \<Rightarrow> bnd \<Rightarrow> npfloat list \<Rightarrow> pyerror + npfloat list" where
  "apply_bnd U shape bnd_ind_sum_master w =
     foldE (\<lambda>w' (key, val). bindE (ind2int U key shape) (\<lambda>j. np_imul w' j (fst val / snd val)))
       w bnd_ind_sum_master"

definition normalise :: "npfloat list \<Rightarrow> npfloat list" where
  "normalise w = map (\<lambda>x. x / sum_list w) w"

definition MCT_boundary ::
  "('d, 'k, 'v, 'r) lib \<Rightarrow> int list \<Rightarrow> bnd \<Rightarrow> npfloat list \<Rightarrow> pyerror + npfloat list" where
  "MCT_boundary U shape bnd_ind_sum_master w =
     bindE (apply_bnd U shape bnd_ind_sum_master w) (\<lambda>w'. Inr (normalise w'))"

text \<open>Lines 79 and 80.\<close>

definition shape_of :: "('a, 'd) mct_args \<Rightarrow> int list" where
  "shape_of E = map col2 (grid E)"

definition ids_of :: "('a, 'd) mct_args \<Rightarrow> int list" where
  "ids_of E = map int [0..<nat (np_prod (shape_of E))]"

text \<open>Lines 101 to 111: the centers are drawn and the workers run.\<close>

definition MCT_sample ::
  "('d, 'k, 'v, 'r) lib \<Rightarrow> ('a, 'd) mct_args \<Rightarrow> ('k, 'v, 'r) mct_state
     \<Rightarrow> pyerror + (int list \<times> 'r \<times> group list)" where
  "MCT_sample U E s =
     bindE (random_choice U (rng s) (ids_of E) (L E) (p s)) (\<lambda>(center_ids, rng').
     bindE (mapE (\<lambda>center_id. int2ind U center_id (shape_of E)) center_ids) (\<lambda>center_inds.
     bindE (mapE (LE U E (shape_of E)) center_inds) (\<lambda>groups.
     Inr (center_ids, rng', groups))))"

text \<open>Lines 113 to 132: the accumulators are merged, the registry is updated and the
  signatures of the groups are adjusted to it.\<close>

definition MCT_registry ::
  "('d, 'k, 'v, 'r) lib \<Rightarrow> ('a, 'd) mct_args \<Rightarrow> ('k, 'v, 'r) mct_state \<Rightarrow> group list
     \<Rightarrow> pyerror + (bnd \<times> signature list option \<times> ('k \<times> 'v) list \<times> point list option
                    \<times> group list)" where
  "MCT_registry U E s groups =
     (let bnd_ind_sum_master = aggregate groups in
      bindE (foldE (\<lambda>(ref1, data1, ref_ept1) (group_ids, les, endpts, bnd_ind_sum).
                      update_LERef U ref1 les (eps E) data1 ref_ept1 endpts)
               (ref s, data s, ref_ept s) groups) (\<lambda>(ref1, data1, ref_ept1).
      bindE (mapE (\<lambda>(group_ids, les, endpts, bnd_ind_sum).
                      bindE (adjustLEs2Ref U ref1 les) (\<lambda>les1.
                      Inr (group_ids, les1, endpts, bnd_ind_sum))) groups) (\<lambda>groups1.
      Inr (bnd_ind_sum_master, ref1, data1, ref_ept1, groups1))))"

text \<open>Lines 134 to 143: the weights, the data, the number of boundary pairs and the
  boundary cells are updated from the classes of each group in turn.\<close>

definition MCT_classes ::
  "('d, 'k, 'v, 'r) lib \<Rightarrow> ('a, 'd) mct_args \<Rightarrow> npfloat list \<times> ('k \<times> 'v) list \<times> int \<times> int set
     \<Rightarrow> group list \<Rightarrow> pyerror + (npfloat list \<times> ('k \<times> 'v) list \<times> int \<times> int set)" where
  "MCT_classes U E acc groups =
     foldE (\<lambda>(w, data2, B, bndry_ids_all) (group_ids, group_les, endpts, bnd_ind_sum).
              bindE (update_Prob_Data U group_ids (shape_of E) (grid E) group_les (eps E)
                       w (eta_1 E) (eta_2 E) data2) (\<lambda>(w1, data3, b_pairs, bndry_ids).
              Inr (w1, data3, B + b_pairs, bndry_ids_all \<union> bndry_ids)))
       acc groups"

text \<open>Lines 113 to 143.\<close>

definition MCT_update ::
  "('d, 'k, 'v, 'r) lib \<Rightarrow> ('a, 'd) mct_args \<Rightarrow> ('k, 'v, 'r) mct_state \<Rightarrow> group list
     \<Rightarrow> pyerror + (bnd \<times> signature list option \<times> point list option \<times> ('k \<times> 'v) list
                    \<times> npfloat list \<times> int \<times> int set)" where
  "MCT_update U E s groups =
     bindE (MCT_registry U E s groups) (\<lambda>(bnd_ind_sum_master, ref1, data1, ref_ept1, groups1).
     bindE (MCT_classes U E (p s, data1, B_pairs s, {}) groups1)
       (\<lambda>(w, data2, B, bndry_ids_all).
     Inr (bnd_ind_sum_master, ref1, ref_ept1, data2, w, B, bndry_ids_all)))"

text \<open>Lines 99 to 153: one iteration of the loop.\<close>

definition MCT_iter ::
  "('d, 'k, 'v, 'r) lib \<Rightarrow> ('a, 'd) mct_args \<Rightarrow> ('k, 'v, 'r) mct_state
     \<Rightarrow> pyerror + ('k, 'v, 'r) mct_state" where
  "MCT_iter U E s =
     bindE (MCT_sample U E s) (\<lambda>(center_ids, rng1, groups).
     bindE (MCT_update U E s groups)
       (\<lambda>(bnd_ind_sum_master, ref1, ref_ept1, data1, w, B, bndry_ids_all).
     bindE (MCT_boundary U (shape_of E) bnd_ind_sum_master w) (\<lambda>w1.
     bindE (py_truediv B ((q E + 1) * L E * (i s + 1))) (\<lambda>avg1.
     Inr \<lparr>p = w1, ref = ref1, ref_ept = ref_ept1, data = data1, B_pairs = B,
          bndry_ids_master = bndry_ids_master s \<union> bndry_ids_all,
          starts = starts s \<union> set center_ids, i = i s + 1, avg = avg1, rng = rng1\<rparr>))))"

text \<open>Lines 79 to 97: the state before the first iteration. \<^verbatim>\<open>np.ones\<close> takes
  the wrapped product of the counts: it raises \<^verbatim>\<open>TypeError\<close> when the product is a
  float (numpy from 1.12) and \<^verbatim>\<open>ValueError\<close> when it is negative.\<close>

definition MCT_init :: "('a, 'd) mct_args \<Rightarrow> 'r \<Rightarrow> pyerror + ('k, 'v, 'r) mct_state" where
  "MCT_init E rng0 =
     (let n = np_prod (shape_of E) in
      if grid_dtype E = Float64 then Inl TypeError
      else if n < 0 then Inl ValueError
      else Inr \<lparr>p = replicate (nat n) (Fin 1 / Fin (real_of_int n)),
                ref = None, ref_ept = None, data = [], B_pairs = 0, bndry_ids_master = {},
                starts = {}, i = 0, avg = PInf, rng = rng0\<rparr>)"

text \<open>Lines 98 to 153: the loop. The guard is the source's own,
  \<^verbatim>\<open>(i < limit) and (avg > AVG)\<close>; an exception in an iteration ends the run.\<close>

function MCT_loop ::
  "('d, 'k, 'v, 'r) lib \<Rightarrow> ('a, 'd) mct_args \<Rightarrow> ('k, 'v, 'r) mct_state
     \<Rightarrow> pyerror + ('k, 'v, 'r) mct_state" where
  "MCT_loop U E s =
     (if i s < limit E \<and> avg s > AVG E
      then (case MCT_iter U E s of Inl e \<Rightarrow> Inl e | Inr s' \<Rightarrow> MCT_loop U E s')
      else Inr s)"
  by pat_completeness auto
termination
  apply (relation "measure (\<lambda>(U, E, s). nat (limit E - i s))")
   apply simp
  apply (auto simp: MCT_iter_def bindE_def split: sum.splits prod.splits)
  done

declare MCT_loop.simps [simp del]

text \<open>Line 154: the returned tuple, as the sequence of its elements.\<close>

datatype ('k, 'v) pyval =
  PyRef "signature list option"
  | PyDict "('k \<times> 'v) list"
  | PyArray "npfloat list"
  | PyInt int
  | PyFloat npfloat
  | PySet "int set"

definition MCT_return :: "('k, 'v, 'r) mct_state \<Rightarrow> ('k, 'v) pyval list" where
  "MCT_return s =
     [PyRef (ref s), PyDict (data s), PyArray (p s), PyInt (i s), PyFloat (avg s),
      PySet (bndry_ids_master s), PySet (starts s)]"

definition MCT ::
  "('d, 'k, 'v, 'r) lib \<Rightarrow> ('a, 'd) mct_args \<Rightarrow> 'r \<Rightarrow> pyerror + ('k, 'v) pyval list" where
  "MCT U E rng0 =
     bindE (MCT_init E rng0) (\<lambda>s0.
     bindE (MCT_loop U E s0) (\<lambda>s. Inr (MCT_return s)))"

section \<open>A one-dimensional instance\<close>

text \<open>
  A grid of two points on \<open>[0, 1]\<close>, with simple implementations of the imported
  functions: the generator always draws cell 0, a cell has no neighbours, the only cube
  is the whole grid, the registry keeps the last signatures and the class update leaves
  the weights as they are. The theorems below are instantiated on it.
\<close>

definition grid1 :: grid where
  "grid1 = [\<lparr>col0 = Fin 0, col1 = Fin 1, col2 = 2, col3 = Fin 1\<rparr>]"

definition lib1 :: "(npfloat, nat, signature, nat) lib" where
  "lib1 =
     \<lparr>random_choice = (\<lambda>g ids n w. Inr (replicate (nat n) 0, Suc g)),
      int2ind = (\<lambda>c sh. Inr [c]),
      ind2pt = (\<lambda>ind g chk. Inr (map (\<lambda>j. Fin (real_of_int j)) ind)),
      ind2int = (\<lambda>ind sh. py_index ind 0),
      pt2inds = (\<lambda>pt g. Inr [[0], [1]]),
      neighbors = (\<lambda>ind g rad n D. Inr ([], [])),
      update_LERef = (\<lambda>rf les e d re endpts. Inr (Some les, d, Some endpts)),
      adjustLEs2Ref = (\<lambda>rf les. Inr les),
      update_Prob_Data = (\<lambda>ids sh g les e w e1 e2 d. Inr (w, d, 0, {}))\<rparr>"

text \<open>A simulator whose trajectory stays at its start for two steps of size 1, with
  signature 0.\<close>

definition sim1 :: "point \<Rightarrow> unit \<Rightarrow> pyerror + results" where
  "sim1 start a =
     Inr \<lparr>PermData = [start, start], PermStep = [Fin 1, Fin 1], TempData = [start],
          TempLyapunov = [[Fin 0]]\<rparr>"

definition args1 :: "(unit, npfloat) mct_args" where
  "args1 =
     \<lparr>sim = sim1, args = (), grid = grid1, grid_dtype = Int64, nodes = 1, parallel = False, limit = 1,
      AVG = Fin (1 / 100), eta_1 = Fin (12 / 10), eta_2 = Fin (95 / 100), eps = Fin 1,
      L = 1, q = 2, r = Fin (11 / 10), Dinv = Fin 1\<rparr>"

text \<open>The states at the head of the loop: \<open>MCT_after U E rng0 k s\<close> holds when \<open>s\<close>
  is the state after \<open>k\<close> completed iterations of the run started with generator
  state \<open>rng0\<close>.\<close>

inductive MCT_after ::
  "('d, 'k, 'v, 'r) lib \<Rightarrow> ('a, 'd) mct_args \<Rightarrow> 'r \<Rightarrow> nat \<Rightarrow> ('k, 'v, 'r) mct_state \<Rightarrow> bool"
  for U E rng0 where
  start: "MCT_init E rng0 = Inr s0 \<Longrightarrow> MCT_after U E rng0 0 s0"
| iter: "MCT_after U E rng0 k s \<Longrightarrow> i s < limit E \<Longrightarrow> avg s > AVG E
           \<Longrightarrow> MCT_iter U E s = Inr s' \<Longrightarrow> MCT_after U E rng0 (Suc k) s'"

text \<open>The numbers of boundary pairs that the calls of \<^verbatim>\<open>update_Prob_Data\<close> at
  line 138 report, in order: for the groups of one iteration, and for the iteration
  that starts in a state.\<close>

fun pairs_reported ::
  "('d, 'k, 'v, 'r) lib \<Rightarrow> ('a, 'd) mct_args \<Rightarrow> npfloat list \<Rightarrow> ('k \<times> 'v) list \<Rightarrow> group list
     \<Rightarrow> int list" where
  "pairs_reported U E w d [] = []"
| "pairs_reported U E w d (g # gs) =
     (case update_Prob_Data U (fst g) (shape_of E) (grid E) (fst (snd g)) (eps E) w
             (eta_1 E) (eta_2 E) d of
        Inl e \<Rightarrow> []
      | Inr (w1, d1, b_pairs, bndry_ids) \<Rightarrow> b_pairs # pairs_reported U E w1 d1 gs)"

definition iter_pairs ::
  "('d, 'k, 'v, 'r) lib \<Rightarrow> ('a, 'd) mct_args \<Rightarrow> ('k, 'v, 'r) mct_state \<Rightarrow> int list" where
  "iter_pairs U E s =
     (case MCT_sample U E s of
        Inl e \<Rightarrow> []
      | Inr (center_ids, rng1, groups) \<Rightarrow>
          (case MCT_registry U E s groups of
             Inl e \<Rightarrow> []
           | Inr (master, ref1, data1, ref_ept1, groups1) \<Rightarrow>
               pairs_reported U E (p s) data1 groups1))"

text \<open>\<open>MCT_counted U E rng0 k s bs\<close>: \<open>s\<close> is the state after \<open>k\<close> completed
  iterations, in which \<^verbatim>\<open>update_Prob_Data\<close> has reported the numbers \<open>bs\<close>.\<close>

inductive MCT_counted ::
  "('d, 'k, 'v, 'r) lib \<Rightarrow> ('a, 'd) mct_args \<Rightarrow> 'r \<Rightarrow> nat \<Rightarrow> ('k, 'v, 'r) mct_state \<Rightarrow> int list
     \<Rightarrow> bool"
  for U E rng0 where
  start: "MCT_init E rng0 = Inr s0 \<Longrightarrow> MCT_counted U E rng0 0 s0 []"
| iter: "MCT_counted U E rng0 k s bs \<Longrightarrow> i s < limit E \<Longrightarrow> avg s > AVG E
           \<Longrightarrow> MCT_iter U E s = Inr s'
           \<Longrightarrow> MCT_counted U E rng0 (Suc k) s' (bs @ iter_pairs U E s)"

text \<open>An instance whose class update reports two boundary pairs for each group, its
  state after the first iteration, and an instance with no iteration allowed.\<close>

definition lib2 :: "(npfloat, nat, signature, nat) lib" where
  "lib2 = lib1\<lparr>update_Prob_Data := (\<lambda>ids sh g les e w e1 e2 d. Inr (w, d, 2, {0}))\<rparr>"

definition state_b :: "(nat, signature, nat) mct_state" where
  "state_b =
     \<lparr>p = [Fin (1 / 2), Fin (1 / 2)], ref = Some [[Fin 0]], ref_ept = Some [[Fin 0]],
      data = [], B_pairs = 2, bndry_ids_master = {0}, starts = {0}, i = 1,
      avg = Fin (2 / 3), rng = Suc 0\<rparr>"

text \<open>The instance with no iteration allowed.\<close>

definition args0 :: "(unit, npfloat) mct_args" where
  "args0 = args1\<lparr>limit := 0\<rparr>"

text \<open>The state of the instance before and after its first iteration.\<close>

definition state0 :: "(nat, signature, nat) mct_state" where
  "state0 =
     \<lparr>p = [Fin (1 / 2), Fin (1 / 2)], ref = None, ref_ept = None, data = [], B_pairs = 0,
      bndry_ids_master = {}, starts = {}, i = 0, avg = PInf, rng = 0\<rparr>"


definition state1 :: "(nat, signature, nat) mct_state" where
  "state1 =
     \<lparr>p = [Fin (1 / 2), Fin (1 / 2)], ref = Some [[Fin 0]], ref_ept = Some [[Fin 0]],
      data = [], B_pairs = 0, bndry_ids_master = {}, starts = {0}, i = 1, avg = Fin 0,
      rng = Suc 0\<rparr>"

section \<open>What an accumulator holds\<close>

text \<open>The values a list of dictionary items holds for a key, in order, and the pair
  a dictionary holds for a key, \<^verbatim>\<open>[0,0]\<close> when it has none.\<close>

definition entry_vals :: "'k \<Rightarrow> ('k \<times> 'x) list \<Rightarrow> 'x list" where
  "entry_vals key kvs = map snd (filter (\<lambda>kv. fst kv = key) kvs)"

definition cur :: "bnd \<Rightarrow> index \<Rightarrow> npfloat \<times> npfloat" where
  "cur d key = (case map_of d key of None \<Rightarrow> (0, 0) | Some v \<Rightarrow> v)"

text \<open>The corners of a cube that lie within the monitored rectangle, given the flags
  of lines 61 to 63.\<close>

definition corners_in :: "index list \<Rightarrow> bool list \<Rightarrow> index list" where
  "corners_in cube_inds inbnds = map fst (filter snd (zip cube_inds inbnds))"

text \<open>The position that \<^verbatim>\<open>p[ind2int(key,shape)]\<close> addresses in a field of \<open>n\<close>
  weights, if any, and the ratio of an accumulator entry, \<^verbatim>\<open>val[0]/val[1]\<close>.\<close>

definition cell :: "('d, 'k, 'v, 'r) lib \<Rightarrow> int list \<Rightarrow> nat \<Rightarrow> index \<Rightarrow> nat option" where
  "cell U shape n key =
     (case ind2int U key shape of
        Inl e \<Rightarrow> None
      | Inr c \<Rightarrow> if 0 \<le> c \<and> c < int n then Some (nat c)
                else if - int n \<le> c \<and> c < 0 then Some (nat (c + int n)) else None)"

definition ratio :: "index \<times> (npfloat \<times> npfloat) \<Rightarrow> npfloat" where
  "ratio kv = fst (snd kv) / snd (snd kv)"

text \<open>Two worker results with accumulators that share their keys.\<close>

definition group_a :: group where
  "group_a = ([0], [[Fin 0]], [[Fin 0]], [([0], Fin 1, Fin 2), ([1], Fin 1, Fin 1)])"

definition group_b :: group where
  "group_b = ([1], [[Fin 0]], [[Fin 1]], [([1], Fin 2, Fin 2), ([0], Fin 2, Fin 3)])"

text \<open>A simulator whose trajectory has a single state: it stops where it starts.\<close>

definition sim2 :: "point \<Rightarrow> unit \<Rightarrow> pyerror + results" where
  "sim2 start a =
     Inr \<lparr>PermData = [start], PermStep = [Fin 1], TempData = [start],
          TempLyapunov = [[Fin 0]]\<rparr>"

definition args2 :: "(unit, npfloat) mct_args" where
  "args2 = args1\<lparr>sim := sim2\<rparr>"

definition state2 :: "(nat, signature, nat) mct_state" where
  "state2 =
     \<lparr>p = [NaN, NaN], ref = Some [[Fin 0]], ref_ept = Some [[Fin 0]],
      data = [], B_pairs = 0, bndry_ids_master = {}, starts = {0}, i = 1, avg = Fin 0,
      rng = Suc 0\<rparr>"

text \<open>Modelled from the spec: \<^verbatim>\<open>update_Prob_Data\<close> of \<^verbatim>\<open>VISolver.BoA.Utilities\<close>,
  which is not under \<^verbatim>\<open>src/\<close>, on a group whose signatures are all equal. Section 4.4
  of the specification: for every sampled cell, "if all compared neighbors agree, weight
  is multiplied by \<^verbatim>\<open>eta_shrink\<close>"; with equal signatures no pair of cells disagrees, so no
  boundary pair and no boundary cell is reported, and the data are kept. What the
  function does on a group with different signatures is not modelled: the model raises
  there.\<close>

definition update_agree ::
  "int list \<Rightarrow> int list \<Rightarrow> grid \<Rightarrow> signature list \<Rightarrow> npfloat \<Rightarrow> npfloat list \<Rightarrow> npfloat
     \<Rightarrow> npfloat \<Rightarrow> ('k \<times> 'v) list \<Rightarrow> pyerror + (npfloat list \<times> ('k \<times> 'v) list \<times> int \<times> int set)" where
  "update_agree group_ids shape g group_les e w e1 e2 d =
     (if list_all (\<lambda>le. le = hd group_les) group_les
      then bindE (foldE (\<lambda>w1 c. np_imul w1 c e2) w group_ids) (\<lambda>w1. Inr (w1, d, 0, {}))
      else Inl OtherError)"

text \<open>The instance with that class update, a generator that draws the cells
  \<open>0, \<dots>, L - 1\<close>, two draws in a round and \<^verbatim>\<open>eta_2 = 0\<close>; the worker results of its
  first round and its state after it.\<close>

definition lib3 :: "(npfloat, nat, signature, nat) lib" where
  "lib3 = lib1\<lparr>random_choice := (\<lambda>g ids n w. Inr (map int [0..<nat n], Suc g)),
               update_Prob_Data := update_agree\<rparr>"

definition args3 :: "(unit, npfloat) mct_args" where
  "args3 = args1\<lparr>eta_2 := Fin 0, L := 2\<rparr>"

definition groups3 :: "group list" where
  "groups3 =
     [([0], [[Fin 0]], [[Fin 0]], [([0], Fin 2, Fin 2), ([1], Fin 2, Fin 2)]),
      ([1], [[Fin 0]], [[Fin 1]], [([0], Fin 2, Fin 2), ([1], Fin 2, Fin 2)])]"

definition state3 :: "(nat, signature, nat) mct_state" where
  "state3 =
     \<lparr>p = [NaN, NaN], ref = Some [[Fin 0]], ref_ept = Some [[Fin 1]],
      data = [], B_pairs = 0, bndry_ids_master = {}, starts = {0, 1}, i = 1, avg = Fin 0,
      rng = Suc 0\<rparr>"



section \<open>Evaluating the instance\<close>

lemmas instance_defs = grid1_def lib1_def lib3_def lib2_def update_agree_def sim1_def sim2_def args1_def args0_def
  args2_def args3_def shape_of_def ids_of_def

lemmas run_defs = bindE_def py_index_def np_imul_def py_truediv_def np_cumsum_def
  np_maximum_def np_norm_def row_dists_def record_corner_def inbnds_of_def LE_step_def
  LE_traj_def LE_def merge_entry_def bnd_of_def aggregate_def apply_bnd_def normalise_def
  MCT_boundary_def MCT_sample_def MCT_registry_def MCT_classes_def MCT_update_def MCT_iter_def
  MCT_init_def wrap64_def np_prod_def zero_npfloat_def one_npfloat_def minus_npfloat_def
  inf_signed_def

lemma init1: "MCT_init args1 0 = Inr state0"
  by (simp add: state0_def instance_defs run_defs numeral_2_eq_2)

lemma init0: "MCT_init args0 0 = Inr state0"
  by (simp add: state0_def instance_defs run_defs numeral_2_eq_2)

lemma run1_iter: "MCT_iter lib1 args1 state0 = Inr state1"
  by (simp add: state0_def state1_def instance_defs run_defs enumerate_eq_zip)

section \<open>The loop and its counters\<close>

lemma bindE_Inr: "bindE m f = Inr y \<longleftrightarrow> (\<exists>x. m = Inr x \<and> f x = Inr y)"
  by (cases m) (simp_all add: bindE_def)

lemma MCT_iter_counters:
  assumes "MCT_iter U E s = Inr s'"
  shows "i s' = i s + 1"
    and "(q E + 1) * L E * i s' \<noteq> 0"
    and "avg s' = Fin (real_of_int (B_pairs s') / real_of_int ((q E + 1) * L E * i s'))"
  using assms
  by (auto simp: MCT_iter_def bindE_Inr py_truediv_def split: if_splits)

lemma MCT_init_i: "MCT_init E rng0 = Inr s0 \<Longrightarrow> i s0 = 0"
  by (auto simp: MCT_init_def Let_def split: if_splits)

lemma MCT_after_i: "MCT_after U E rng0 k s \<Longrightarrow> i s = int k"
  by (induction rule: MCT_after.induct) (auto dest: MCT_iter_counters(1) MCT_init_i)

lemma MCT_loop_exit: "\<not> (i s < limit E \<and> avg s > AVG E) \<Longrightarrow> MCT_loop U E s = Inr s"
  by (subst MCT_loop.simps) auto

lemma MCT_loop_after:
  "MCT_after U E rng0 k s \<Longrightarrow> MCT_loop U E s = Inr s'
     \<Longrightarrow> \<exists>k'. MCT_after U E rng0 k' s' \<and> \<not> (i s' < limit E \<and> avg s' > AVG E)"
proof (induction U E s arbitrary: k rule: MCT_loop.induct)
  case (1 U E s)
  show ?case
  proof (cases "i s < limit E \<and> avg s > AVG E")
    case True
    with "1.prems"(2) obtain s1
      where it: "MCT_iter U E s = Inr s1" and lp: "MCT_loop U E s1 = Inr s'"
      by (subst (asm) MCT_loop.simps) (auto split: sum.splits)
    from "1.prems"(1) True it have "MCT_after U E rng0 (Suc k) s1"
      by (auto intro: MCT_after.iter)
    from "1.IH"[OF True it this lp] show ?thesis .
  next
    case False
    with "1.prems" show ?thesis by (subst (asm) MCT_loop.simps) auto
  qed
qed

lemma state0_after: "MCT_after lib1 args1 (0::nat) 0 state0"
  by (rule MCT_after.start[OF init1])

lemma state1_after: "MCT_after lib1 args1 (0::nat) (Suc 0) state1"
  by (rule MCT_after.iter[OF state0_after _ _ run1_iter])
    (simp_all add: state0_def args1_def)

lemma run1_loop: "MCT_loop lib1 args1 state0 = Inr state1"
proof -
  have "i state0 < limit args1 \<and> avg state0 > AVG args1"
    by (simp add: state0_def args1_def)
  then have "MCT_loop lib1 args1 state0 = MCT_loop lib1 args1 state1"
    by (subst MCT_loop.simps) (simp add: run1_iter)
  also have "\<dots> = Inr state1"
    by (rule MCT_loop_exit) (simp add: state1_def args1_def)
  finally show ?thesis .
qed

lemma run0_loop: "MCT_loop lib1 args0 state0 = Inr state0"
  by (rule MCT_loop_exit) (simp add: state0_def args0_def args1_def)

text \<open>
  C1, as amended. When \<^verbatim>\<open>MCT\<close> returns, it returns a tuple of seven elements: the
  reference signatures, the data map, the final probability field, the number of
  completed iterations, the final convergence statistic, the set of boundary cell ids
  and, seventh, the set of all sampled cell ids, all taken from the state at which the
  loop guard failed.
\<close>

theorem MCT_returns_seven:
  assumes "MCT U E rng0 = Inr t"
  shows "length t = 7 \<and>
    (\<exists>k s. MCT_after U E rng0 k s \<and> \<not> (int k < limit E \<and> avg s > AVG E) \<and>
       t = [PyRef (ref s), PyDict (data s), PyArray (p s), PyInt (int k), PyFloat (avg s),
            PySet (bndry_ids_master s), PySet (starts s)])"
proof -
  from assms obtain s0 s where s0: "MCT_init E rng0 = Inr s0"
    and lp: "MCT_loop U E s0 = Inr s" and t: "t = MCT_return s"
    by (auto simp: MCT_def bindE_Inr)
  from MCT_loop_after[OF MCT_after.start[OF s0] lp] obtain k
    where k: "MCT_after U E rng0 k s" and g: "\<not> (i s < limit E \<and> avg s > AVG E)"
    by blast
  from k have "i s = int k" by (rule MCT_after_i)
  with k g t show ?thesis by (auto simp: MCT_return_def)
qed

theorem MCT_returns_seven_witness:
  "MCT lib1 args1 0 = Inr (MCT_return state1) \<and> length (MCT_return state1) = 7 \<and>
    (\<exists>k s. MCT_after lib1 args1 0 k s \<and> \<not> (int k < limit args1 \<and> avg s > AVG args1) \<and>
       MCT_return state1 =
         [PyRef (ref s), PyDict (data s), PyArray (p s), PyInt (int k), PyFloat (avg s),
          PySet (bndry_ids_master s), PySet (starts s)])"
proof -
  have r: "MCT lib1 args1 0 = Inr (MCT_return state1)"
    by (simp add: MCT_def init1 run1_loop bindE_def)
  from MCT_returns_seven[OF r] r show ?thesis by simp
qed

text \<open>
  C1, as stated, fails: the run of the instance with no iteration allowed returns a
  tuple of seven elements, not six.
\<close>

theorem MCT_six_elements_counterexample:
  "MCT lib1 args0 0 =
     Inr [PyRef None, PyDict [], PyArray [Fin (1 / 2), Fin (1 / 2)], PyInt 0, PyFloat PInf,
          PySet {}, PySet {}] \<and>
   length (projr (MCT lib1 args0 0)) \<noteq> 6"
proof -
  have "MCT lib1 args0 0 = Inr (MCT_return state0)"
    by (simp add: MCT_def init0 run0_loop bindE_def)
  then show ?thesis
    by (simp add: MCT_return_def state0_def)
qed

text \<open>
  C3. At the head of the loop, after \<open>k\<close> completed iterations, a new iteration
  begins exactly when \<open>k < limit\<close> and \<open>avg > AVG\<close>; once \<open>k \<ge> limit\<close> or
  \<open>avg \<le> AVG\<close> holds, the loop ends with the state unchanged (no draw, no worker).
\<close>

theorem MCT_loop_guard:
  assumes "MCT_after U E rng0 k s"
  shows "MCT_loop U E s =
           (if int k < limit E \<and> avg s > AVG E
            then (case MCT_iter U E s of Inl e \<Rightarrow> Inl e | Inr s' \<Rightarrow> MCT_loop U E s')
            else Inr s)
         \<and> (limit E \<le> int k \<or> avg s \<le> AVG E \<longrightarrow> MCT_loop U E s = Inr s)"
proof -
  have k: "i s = int k" using assms by (rule MCT_after_i)
  have n: "\<not> AVG E < avg s" if "avg s \<le> AVG E"
    using that by (cases "avg s"; cases "AVG E") simp_all
  have eq: "MCT_loop U E s =
           (if i s < limit E \<and> avg s > AVG E
            then (case MCT_iter U E s of Inl e \<Rightarrow> Inl e | Inr s' \<Rightarrow> MCT_loop U E s')
            else Inr s)"
    by (rule MCT_loop.simps)
  show ?thesis
  proof
    show "MCT_loop U E s =
           (if int k < limit E \<and> avg s > AVG E
            then (case MCT_iter U E s of Inl e \<Rightarrow> Inl e | Inr s' \<Rightarrow> MCT_loop U E s')
            else Inr s)"
      using eq k by simp
    show "limit E \<le> int k \<or> avg s \<le> AVG E \<longrightarrow> MCT_loop U E s = Inr s"
      using k n by (auto intro: MCT_loop_exit)
  qed
qed

theorem MCT_loop_guard_witness:
  "MCT_after lib1 args1 (0::nat) 0 state0 \<and> int 0 < limit args1 \<and>
   avg state0 > AVG args1 \<and>
   MCT_loop lib1 args1 state0 = MCT_loop lib1 args1 state1 \<and>
   MCT_after lib1 args1 (0::nat) (Suc 0) state1 \<and> avg state1 \<le> AVG args1 \<and>
   limit args1 \<le> int (Suc 0) \<and> MCT_loop lib1 args1 state1 = Inr state1"
proof -
  have g: "int 0 < limit args1" "avg state0 > AVG args1"
    by (simp_all add: state0_def args1_def)
  have e: "avg state1 \<le> AVG args1" "limit args1 \<le> int (Suc 0)"
    by (simp_all add: state1_def args1_def)
  have "MCT_loop lib1 args1 state0 = MCT_loop lib1 args1 state1"
    using MCT_loop_guard[OF state0_after] g
    by (simp add: run1_iter)
  moreover have "MCT_loop lib1 args1 state1 = Inr state1"
    using MCT_loop_guard[OF state1_after] e by simp
  ultimately show ?thesis
    using g e state1_after state0_after by (intro conjI)
qed

section \<open>Merging accumulators\<close>

lemma map_of_merge_entry:
  "map_of (merge_entry d (k, v)) key =
     (if key = k then Some (fst (cur d k) + fst v, snd (cur d k) + snd v) else map_of d key)"
  by (auto simp: merge_entry_def cur_def map_of_map_entry update_conv' split: option.splits)

lemma cur_merge_entry:
  "cur (merge_entry d (k, v)) key =
     (if key = k then (fst (cur d k) + fst v, snd (cur d k) + snd v) else cur d key)"
  by (simp add: cur_def[of "merge_entry d (k, v)"] map_of_merge_entry) (simp add: cur_def)

lemma map_of_foldl_merge:
  "map_of (foldl merge_entry d kvs) key =
     (if entry_vals key kvs = [] then map_of d key
      else Some (fst (cur d key) + sum_list (map fst (entry_vals key kvs)),
                 snd (cur d key) + sum_list (map snd (entry_vals key kvs))))"
proof (induction kvs arbitrary: d)
  case Nil
  then show ?case by (simp add: entry_vals_def)
next
  case (Cons kv kvs)
  obtain k v where kv: "kv = (k, v)" by (cases kv)
  show ?case
    unfolding kv foldl_Cons Cons.IH
    by (auto simp: entry_vals_def map_of_merge_entry cur_merge_entry add.assoc)
qed

lemma aggregate_concat: "foldl (\<lambda>master group. foldl merge_entry master (bnd_of group)) d gs
    = foldl merge_entry d (concat (map bnd_of gs))"
  by (induction gs arbitrary: d) simp_all

lemma entry_vals_mset:
  assumes "mset kvs = mset kvs'"
  shows "mset (entry_vals key kvs) = mset (entry_vals key kvs')"
  using assms by (simp add: entry_vals_def)

lemma sum_list_mset_cong:
  fixes xs ys :: "'a list" and f :: "'a \<Rightarrow> npfloat"
  assumes "mset xs = mset ys"
  shows "sum_list (map f xs) = sum_list (map f ys)"
proof -
  have "sum_list (map f xs) = sum_mset (image_mset f (mset xs))"
    by (simp flip: sum_mset_sum_list)
  also have "\<dots> = sum_mset (image_mset f (mset ys))" using assms by simp
  also have "\<dots> = sum_list (map f ys)" by (simp flip: sum_mset_sum_list)
  finally show ?thesis .
qed

text \<open>
  C9. The merged accumulator does not depend on the order in which the workers' results
  are merged: for every batch of worker results and every permutation of it, every cell
  index has the same entry, or none, in both merged accumulators.
\<close>

theorem aggregate_order_independent:
  assumes "mset groups = mset groups'"
  shows "map_of (aggregate groups) = map_of (aggregate groups')"
proof
  fix key
  let ?kvs = "concat (map bnd_of groups)" and ?kvs' = "concat (map bnd_of groups')"
  have "mset ?kvs = sum_mset (image_mset (\<lambda>g. mset (bnd_of g)) (mset groups))"
    by (simp add: mset_concat comp_def flip: sum_mset_sum_list)
  also have "\<dots> = sum_mset (image_mset (\<lambda>g. mset (bnd_of g)) (mset groups'))"
    using assms by simp
  also have "\<dots> = mset ?kvs'"
    by (simp add: mset_concat comp_def flip: sum_mset_sum_list)
  finally have m: "mset (entry_vals key ?kvs) = mset (entry_vals key ?kvs')"
    by (rule entry_vals_mset)
  then have e: "entry_vals key ?kvs = [] \<longleftrightarrow> entry_vals key ?kvs' = []"
    by (metis mset_zero_iff)
  from m have "sum_list (map fst (entry_vals key ?kvs)) = sum_list (map fst (entry_vals key ?kvs'))"
    and "sum_list (map snd (entry_vals key ?kvs)) = sum_list (map snd (entry_vals key ?kvs'))"
    by (rule sum_list_mset_cong)+
  with e show "map_of (aggregate groups) key = map_of (aggregate groups') key"
    by (simp add: aggregate_def aggregate_concat map_of_foldl_merge)
qed

theorem aggregate_order_independent_witness:
  "mset [group_a, group_b] = mset [group_b, group_a] \<and>
   map_of (aggregate [group_a, group_b]) = map_of (aggregate [group_b, group_a])"
  using aggregate_order_independent[of "[group_a, group_b]" "[group_b, group_a]"]
  by simp


section \<open>The walk along a trajectory\<close>

lemma record_corner_merge:
  "record_corner w dt d (key, inb) = (if inb then merge_entry d (key, (w, dt)) else d)"
  by (simp add: record_corner_def merge_entry_def)

lemma foldl_record_corner:
  "foldl (record_corner w dt) d zs
     = foldl merge_entry d (map (\<lambda>key. (key, (w, dt))) (map fst (filter snd zs)))"
proof (induction zs arbitrary: d)
  case Nil
  then show ?case by simp
next
  case (Cons z zs)
  obtain key inb where z: "z = (key, inb)" by (cases z)
  show ?case by (simp add: z record_corner_merge Cons.IH)
qed

lemma entry_vals_const:
  "entry_vals key (map (\<lambda>k. (k, v)) ks) = replicate (count_list ks key) v"
  by (induction ks) (simp_all add: entry_vals_def)

lemma map_of_record_corners:
  "map_of (foldl (record_corner w dt) d (zip cube_inds inbnds)) key =
     (if key \<in> set (corners_in cube_inds inbnds)
      then Some (fst (cur d key) + sum_list (replicate (count_list (corners_in cube_inds inbnds) key) w),
                 snd (cur d key) + sum_list (replicate (count_list (corners_in cube_inds inbnds) key) dt))
      else map_of d key)"
proof -
  have n: "count_list ks key = 0 \<longleftrightarrow> key \<notin> set ks" for ks :: "index list"
    by (simp add: count_list_0_iff)
  show ?thesis
    unfolding foldl_record_corner map_of_foldl_merge entry_vals_const
    using n[of "corners_in cube_inds inbnds"]
    by (auto simp: corners_in_def map_replicate_const)
qed

lemma count_list_distinct: "distinct ks \<Longrightarrow> key \<in> set ks \<Longrightarrow> count_list ks key = Suc 0"
  by (induction ks) (auto simp: count_list_0_iff)

lemma distinct_corners_in: "distinct cube_inds \<Longrightarrow> distinct (corners_in cube_inds inbnds)"
proof -
  assume d: "distinct cube_inds"
  have "distinct (map fst (zip cube_inds inbnds))"
    using d by (metis distinct_take map_fst_zip_take)
  then show ?thesis
    unfolding corners_in_def by (simp add: distinct_map_filter)
qed

lemma cumsum_from_nth:
  "k < length xs \<Longrightarrow> cumsum_from a xs ! k = a + sum_list (take (Suc k) xs)"
proof (induction xs arbitrary: a k)
  case Nil
  then show ?case by simp
next
  case (Cons x xs)
  then show ?case by (cases k) (simp_all add: add.assoc)
qed

lemma length_cumsum_from: "length (cumsum_from a xs) = length xs"
  by (induction xs arbitrary: a) simp_all

lemma cumsum_from_last:
  assumes "xs \<noteq> []"
  shows "last (cumsum_from a xs) = a + sum_list xs"
proof -
  from assms have ne: "cumsum_from a xs \<noteq> []"
    by (metis length_cumsum_from length_0_conv)
  from assms have k: "length xs - 1 < length xs" by simp
  have "last (cumsum_from a xs) = cumsum_from a xs ! (length xs - 1)"
    using ne by (simp add: last_conv_nth length_cumsum_from)
  also have "\<dots> = a + sum_list (take (Suc (length xs - 1)) xs)"
    using k by (rule cumsum_from_nth)
  also have "\<dots> = a + sum_list xs" using assms by simp
  finally show ?thesis .
qed

lemma elapsed_total: "last (np_cumsum (0 # butlast Step)) = sum_list (butlast Step)"
  by (simp add: np_cumsum_def cumsum_from_last del: cumsum_from.simps)

lemma elapsed_at:
  assumes "k < length Step"
  shows "py_index (np_cumsum (0 # butlast Step)) (int k) = Inr (sum_list (take k Step))"
proof -
  have l: "length (np_cumsum (0 # butlast Step)) = length Step"
    using assms by (simp add: np_cumsum_def length_cumsum_from)
  have "take k (butlast Step) = take k Step"
    using assms by (simp add: take_butlast)
  then have "np_cumsum (0 # butlast Step) ! k = sum_list (take k Step)"
    using assms unfolding np_cumsum_def
    by (subst cumsum_from_nth) simp_all
  with l assms show ?thesis by (simp add: py_index_def)
qed

lemma LE_step_Inr:
  assumes "LE_step U E ddiag c t T Step (cube_inds, cube_pts, bnd) (k, pt) = Inr (cube_inds', cube_pts', bnd')"
  shows "\<exists>tk dt ds inb.
      py_index t (int k) = Inr tk \<and> py_index Step (int k) = Inr dt \<and>
      row_dists pt cube_pts = Inr ds \<and>
      (if list_ex (\<lambda>d. ddiag < d) ds
       then pt2inds U pt (grid E) = Inr cube_inds' \<and>
            mapE (\<lambda>ind. ind2pt U ind (grid E) None) cube_inds' = Inr cube_pts'
       else cube_inds' = cube_inds \<and> cube_pts' = cube_pts) \<and>
      inbnds_of (grid E) cube_pts' = Inr inb \<and>
      bnd' = foldl (record_corner (np_exp (((- c) * tk) / T) * dt) dt) bnd (zip cube_inds' inb)"
  using assms
  by (auto simp: LE_step_def bindE_Inr split: if_splits)

lemma LE_traj_Inr:
  assumes "LE_traj U E ddiag (les, endpts, bnd0) start = Inr (les', endpts', bndN)"
  shows "\<exists>res le c0 ci0 cp0 ciN cpN.
      sim E start (args E) = Inr res \<and> py_index (TempLyapunov res) (- 1) = Inr le \<and>
      les' = les @ [le] \<and> np_max (map abs le) = Inr c0 \<and>
      foldE (LE_step U E ddiag c0 (np_cumsum (0 # butlast (PermStep res)))
               (sum_list (butlast (PermStep res))) (PermStep res))
        (ci0, cp0, bnd0) (enumerate 0 (PermData res)) = Inr (ciN, cpN, bndN)"
  using assms
  by (auto simp: LE_traj_def bindE_Inr Let_def elapsed_total) blast

text \<open>
  C7. For a trajectory walked by \<^verbatim>\<open>LE\<close>, with \<open>c\<close> the largest magnitude of a
  component of its signature and \<open>T\<close> its total elapsed time (the sum of its step
  sizes but the last, the time of its last state): at every step, with \<open>t\<close> the time
  elapsed before the step and \<open>dt\<close> its size, every corner of the current surrounding
  cube that lies within the monitored rectangle gets the pair
  \<open>(exp (- c * t / T) * dt, dt)\<close> added to its entry, once for each time it is listed
  among the corners of the cube; the other entries are unchanged. The current cube is the
  cube of the previous step, or the cube of the point when a corner of the previous one
  is farther from the point than the grid diagonal.
\<close>

theorem LE_accumulates:
  "(LE_traj U E ddiag (les, endpts, bnd0) start = Inr (les', endpts', bndN) \<longrightarrow>
      (\<exists>res le c0 ci0 cp0 ciN cpN.
         sim E start (args E) = Inr res \<and> py_index (TempLyapunov res) (- 1) = Inr le \<and>
         les' = les @ [le] \<and> np_max (map abs le) = Inr c0 \<and>
         foldE (LE_step U E ddiag c0 (np_cumsum (0 # butlast (PermStep res)))
                  (sum_list (butlast (PermStep res))) (PermStep res))
           (ci0, cp0, bnd0) (enumerate 0 (PermData res))
           = Inr (ciN, cpN, bndN) \<and>
         (\<forall>k < length (PermStep res).
            py_index (np_cumsum (0 # butlast (PermStep res))) (int k)
              = Inr (sum_list (take k (PermStep res))))))
   \<and> (LE_step U E ddiag c t T Step (cube_inds, cube_pts, bnd) (k, pt)
         = Inr (cube_inds', cube_pts', bnd') \<longrightarrow>
      (\<exists>tk dt ds inb.
         py_index t (int k) = Inr tk \<and> py_index Step (int k) = Inr dt \<and>
         row_dists pt cube_pts = Inr ds \<and>
         (if list_ex (\<lambda>d. ddiag < d) ds
          then pt2inds U pt (grid E) = Inr cube_inds' \<and>
               mapE (\<lambda>ind. ind2pt U ind (grid E) None) cube_inds' = Inr cube_pts'
          else cube_inds' = cube_inds \<and> cube_pts' = cube_pts) \<and>
         inbnds_of (grid E) cube_pts' = Inr inb \<and>
         (\<forall>key. map_of bnd' key =
            (if key \<in> set (corners_in cube_inds' inb)
             then Some (fst (cur bnd key)
                          + sum_list (replicate (count_list (corners_in cube_inds' inb) key)
                                        (np_exp (((- c) * tk) / T) * dt)),
                        snd (cur bnd key)
                          + sum_list (replicate (count_list (corners_in cube_inds' inb) key) dt))
             else map_of bnd key)) \<and>
         (distinct cube_inds' \<longrightarrow>
            (\<forall>key \<in> set (corners_in cube_inds' inb).
               map_of bnd' key = Some (fst (cur bnd key) + np_exp (((- c) * tk) / T) * dt,
                                       snd (cur bnd key) + dt)))))"
proof (intro conjI impI)
  assume "LE_traj U E ddiag (les, endpts, bnd0) start = Inr (les', endpts', bndN)"
  from LE_traj_Inr[OF this] show "\<exists>res le c0 ci0 cp0 ciN cpN.
         sim E start (args E) = Inr res \<and> py_index (TempLyapunov res) (- 1) = Inr le \<and>
         les' = les @ [le] \<and> np_max (map abs le) = Inr c0 \<and>
         foldE (LE_step U E ddiag c0 (np_cumsum (0 # butlast (PermStep res)))
                  (sum_list (butlast (PermStep res))) (PermStep res))
           (ci0, cp0, bnd0) (enumerate 0 (PermData res))
           = Inr (ciN, cpN, bndN) \<and>
         (\<forall>k < length (PermStep res).
            py_index (np_cumsum (0 # butlast (PermStep res))) (int k)
              = Inr (sum_list (take k (PermStep res))))"
    using elapsed_at by blast
next
  assume "LE_step U E ddiag c t T Step (cube_inds, cube_pts, bnd) (k, pt)
         = Inr (cube_inds', cube_pts', bnd')"
  from LE_step_Inr[OF this] obtain tk dt ds inb where
    s: "py_index t (int k) = Inr tk" "py_index Step (int k) = Inr dt"
      "row_dists pt cube_pts = Inr ds"
      "if list_ex (\<lambda>d. ddiag < d) ds
       then pt2inds U pt (grid E) = Inr cube_inds' \<and>
            mapE (\<lambda>ind. ind2pt U ind (grid E) None) cube_inds' = Inr cube_pts'
       else cube_inds' = cube_inds \<and> cube_pts' = cube_pts"
      "inbnds_of (grid E) cube_pts' = Inr inb"
    and b: "bnd' = foldl (record_corner (np_exp (((- c) * tk) / T) * dt) dt) bnd (zip cube_inds' inb)"
    by blast
  have all: "\<forall>key. map_of bnd' key =
            (if key \<in> set (corners_in cube_inds' inb)
             then Some (fst (cur bnd key)
                          + sum_list (replicate (count_list (corners_in cube_inds' inb) key)
                                        (np_exp (((- c) * tk) / T) * dt)),
                        snd (cur bnd key)
                          + sum_list (replicate (count_list (corners_in cube_inds' inb) key) dt))
             else map_of bnd key)"
    unfolding b by (rule allI) (rule map_of_record_corners)
  have one: "map_of bnd' key = Some (fst (cur bnd key) + np_exp (((- c) * tk) / T) * dt,
                                       snd (cur bnd key) + dt)"
    if "distinct cube_inds'" "key \<in> set (corners_in cube_inds' inb)" for key
  proof -
    from that have "count_list (corners_in cube_inds' inb) key = Suc 0"
      by (intro count_list_distinct distinct_corners_in)
    with all that(2) show ?thesis by simp
  qed
  from s all one show "\<exists>tk dt ds inb.
         py_index t (int k) = Inr tk \<and> py_index Step (int k) = Inr dt \<and>
         row_dists pt cube_pts = Inr ds \<and>
         (if list_ex (\<lambda>d. ddiag < d) ds
          then pt2inds U pt (grid E) = Inr cube_inds' \<and>
               mapE (\<lambda>ind. ind2pt U ind (grid E) None) cube_inds' = Inr cube_pts'
          else cube_inds' = cube_inds \<and> cube_pts' = cube_pts) \<and>
         inbnds_of (grid E) cube_pts' = Inr inb \<and>
         (\<forall>key. map_of bnd' key =
            (if key \<in> set (corners_in cube_inds' inb)
             then Some (fst (cur bnd key)
                          + sum_list (replicate (count_list (corners_in cube_inds' inb) key)
                                        (np_exp (((- c) * tk) / T) * dt)),
                        snd (cur bnd key)
                          + sum_list (replicate (count_list (corners_in cube_inds' inb) key) dt))
             else map_of bnd key)) \<and>
         (distinct cube_inds' \<longrightarrow>
            (\<forall>key \<in> set (corners_in cube_inds' inb).
               map_of bnd' key = Some (fst (cur bnd key) + np_exp (((- c) * tk) / T) * dt,
                                       snd (cur bnd key) + dt)))"
    by blast
qed

lemma traj1: "LE_traj lib1 args1 (Fin 1) ([], [], []) [Fin 0]
    = Inr ([[Fin 0]], [[Fin 0]], [([0], Fin 2, Fin 2), ([1], Fin 2, Fin 2)])"
  by (simp add: instance_defs run_defs enumerate_eq_zip)

lemma step1: "LE_step lib1 args1 (Fin 1) (Fin 0) [Fin 0, Fin 1] (Fin 1) [Fin 1, Fin 1]
      ([[0], [1]], [[Fin 0], [Fin 1]], [([0], Fin 1, Fin 1)]) (1, [Fin 0])
    = Inr ([[0], [1]], [[Fin 0], [Fin 1]], [([0], Fin 2, Fin 2), ([1], Fin 1, Fin 1)])"
  by (simp add: instance_defs run_defs)

theorem LE_accumulates_witness:
  "LE_traj lib1 args1 (Fin 1) ([], [], []) [Fin 0]
     = Inr ([[Fin 0]], [[Fin 0]], [([0], Fin 2, Fin 2), ([1], Fin 2, Fin 2)]) \<and>
   LE_step lib1 args1 (Fin 1) (Fin 0) [Fin 0, Fin 1] (Fin 1) [Fin 1, Fin 1]
      ([[0], [1]], [[Fin 0], [Fin 1]], [([0], Fin 1, Fin 1)]) (1, [Fin 0])
     = Inr ([[0], [1]], [[Fin 0], [Fin 1]], [([0], Fin 2, Fin 2), ([1], Fin 1, Fin 1)]) \<and>
   map_of [([0], Fin 2, Fin 2), ([1], Fin 1, Fin 1)] [0]
     = Some (fst (cur [([0], Fin 1, Fin 1)] [0]) + np_exp (((- Fin 0) * Fin 1) / Fin 1) * Fin 1,
             snd (cur [([0], Fin 1, Fin 1)] [0]) + Fin 1)"
proof -
  note t = LE_accumulates[of lib1 args1 "Fin 1" "[]" "[]" "[]" "[Fin 0]" "[[Fin 0]]" "[[Fin 0]]"
      "[([0], Fin 2, Fin 2), ([1], Fin 2, Fin 2)]" "Fin 0" "[Fin 0, Fin 1]" "Fin 1" "[Fin 1, Fin 1]"
      "[[0], [1]]" "[[Fin 0], [Fin 1]]" "[([0], Fin 1, Fin 1)]" 1 "[Fin 0]" "[[0], [1]]"
      "[[Fin 0], [Fin 1]]" "[([0], Fin 2, Fin 2), ([1], Fin 1, Fin 1)]"]
  from t traj1 step1 obtain tk dt inb where
    "py_index [Fin 0, Fin 1] (int 1) = Inr tk" "py_index [Fin 1, Fin 1] (int 1) = Inr dt"
    "inbnds_of (grid args1) [[Fin 0], [Fin 1]] = Inr inb"
    "distinct [[0::int], [1]] \<longrightarrow>
            (\<forall>key \<in> set (corners_in [[0], [1]] inb).
               map_of [([0], Fin 2, Fin 2), ([1], Fin 1, Fin 1)] key = Some (fst (cur [([0], Fin 1, Fin 1)] key) + np_exp (((- Fin 0) * tk) / Fin 1) * dt,
                                       snd (cur [([0], Fin 1, Fin 1)] key) + dt))"
    by blast
  then have c: "map_of [([0], Fin 2, Fin 2), ([1], Fin 1, Fin 1)] [0]
     = Some (fst (cur [([0], Fin 1, Fin 1)] [0]) + np_exp (((- Fin 0) * Fin 1) / Fin 1) * Fin 1,
             snd (cur [([0], Fin 1, Fin 1)] [0]) + Fin 1)"
    by (auto simp: py_index_def inbnds_of_def corners_in_def args1_def grid1_def cur_def)
  show ?thesis by (intro conjI traj1 step1 c)
qed

section \<open>The boundary update and the normalisation\<close>

lemma np_imul_Inr:
  assumes "np_imul xs c x = Inr ys"
  shows "\<exists>j < length xs. ys = xs[j := xs ! j * x] \<and>
     (if 0 \<le> c \<and> c < int (length xs) then Some (nat c)
                else if - int (length xs) \<le> c \<and> c < 0 then Some (nat (c + int (length xs))) else None) = Some j"
  using assms by (auto simp: np_imul_def Let_def split: if_splits)

lemma apply_bnd_Inr:
  assumes "apply_bnd U shape master w = Inr w1"
  shows "length w1 = length w \<and>
     (\<forall>kv \<in> set master. \<exists>j < length w. cell U shape (length w) (fst kv) = Some j) \<and>
     (\<forall>j < length w. w1 ! j =
         foldl (*) (w ! j) (map ratio (filter (\<lambda>kv. cell U shape (length w) (fst kv) = Some j) master)))"
  using assms
proof (induction master arbitrary: w)
  case Nil
  then show ?case by (simp add: apply_bnd_def)
next
  case (Cons kv master)
  obtain key val where kv: "kv = (key, val)" by (cases kv)
  from Cons.prems obtain c w2 where c: "ind2int U key shape = Inr c"
    and w2: "np_imul w c (fst val / snd val) = Inr w2"
    and rest: "apply_bnd U shape master w2 = Inr w1"
    by (auto simp: apply_bnd_def kv bindE_Inr)
  from np_imul_Inr[OF w2] c obtain j0 where j0: "j0 < length w" "w2 = w[j0 := w ! j0 * (fst val / snd val)]"
    "cell U shape (length w) key = Some j0"
    by (auto simp: cell_def)
  from Cons.IH[OF rest] j0 show ?case
    by (auto simp: kv ratio_def nth_list_update)
qed

lemma sum_list_Fin:
  assumes "sum_list xs = Fin c"
  shows "\<exists>rs. xs = map Fin rs \<and> sum_list rs = c"
  using assms
proof (induction xs arbitrary: c)
  case Nil
  then show ?case by (simp add: zero_npfloat_def)
next
  case (Cons x xs)
  from Cons.prems obtain a b where x: "x = Fin a" and b: "sum_list xs = Fin b" and c: "c = a + b"
    by (cases x; cases "sum_list xs") auto
  from Cons.IH[OF b] obtain rs where "xs = map Fin rs" "sum_list rs = b" by blast
  with x c have "x # xs = map Fin (a # rs) \<and> sum_list (a # rs) = c" by simp
  then show ?case by (rule exI[of _ "a # rs"])
qed

lemma sum_list_map_Fin: "sum_list (map Fin rs) = Fin (sum_list rs)"
  by (induction rs) (simp_all add: zero_npfloat_def)

lemma sum_list_scaled: "sum_list (map (\<lambda>x. x / c) rs) = sum_list rs / (c::real)"
  by (induction rs) (simp_all add: add_divide_distrib)

lemma normalise_sum:
  assumes "sum_list w = Fin c" and "c \<noteq> 0"
  shows "sum_list (normalise w) = Fin 1"
proof -
  from sum_list_Fin[OF assms(1)] obtain rs where rs: "w = map Fin rs" "sum_list rs = c" by blast
  have "normalise w = map Fin (map (\<lambda>x. x / c) rs)"
    using assms by (simp add: normalise_def rs(1) comp_def)
  then have "sum_list (normalise w) = Fin (sum_list (map (\<lambda>x. x / c) rs))"
    by (simp only: sum_list_map_Fin)
  also have "\<dots> = Fin 1"
    using rs(2) assms(2) by (simp add: sum_list_scaled)
  finally show ?thesis .
qed

lemma normalise_nonneg:
  assumes "sum_list w = Fin c" and "c \<noteq> 0" and "\<forall>x \<in> set w. 0 \<le> x"
  shows "\<forall>x \<in> set (normalise w). 0 \<le> x"
proof -
  from sum_list_Fin[OF assms(1)] obtain rs where rs: "w = map Fin rs" "sum_list rs = c" by blast
  from assms(3) have nn: "\<forall>x \<in> set rs. 0 \<le> x" by (auto simp: rs(1) zero_npfloat_def)
  then have "0 \<le> sum_list rs" by (simp add: sum_list_nonneg)
  with rs(2) assms(2) have "0 < c" by simp
  with nn show ?thesis using assms(1)
    by (auto simp: normalise_def rs(1) zero_npfloat_def)
qed

lemma sum_list_replicate_Fin: "sum_list (replicate n (Fin a)) = Fin (real n * a)"
  by (induction n) (simp_all add: zero_npfloat_def algebra_simps)

lemma sum_list_zeros: "\<forall>x \<in> set w. x = Fin 0 \<Longrightarrow> sum_list w = Fin 0"
  by (induction w) (simp_all add: zero_npfloat_def)

lemma normalise_zeros:
  assumes "\<forall>x \<in> set w. x = Fin 0"
  shows "normalise w = replicate (length w) NaN"
proof -
  have "map (\<lambda>x. x / Fin 0) w = replicate (length w) NaN"
    using assms by (induction w) (simp_all add: inf_signed_def)
  then show ?thesis by (simp add: normalise_def sum_list_zeros[OF assms])
qed

lemma MCT_iter_Inr:
  assumes "MCT_iter U E s = Inr s'"
  shows "\<exists>center_ids rng1 groups master ref1 ref_ept1 data1 w B ids w1.
      MCT_sample U E s = Inr (center_ids, rng1, groups) \<and>
      MCT_update U E s groups = Inr (master, ref1, ref_ept1, data1, w, B, ids) \<and>
      apply_bnd U (shape_of E) master w = Inr w1 \<and> p s' = normalise w1"
  using assms
  by (auto simp: MCT_iter_def MCT_boundary_def bindE_Inr)

text \<open>
  C8, as amended. After the class update, lines 144 to 148 multiply the weight of the
  cell of every accumulator entry by the entry's ratio of accumulated decay to
  accumulated weight (every entry addresses a cell; a cell addressed by several entries
  is multiplied by each ratio) and then divide every weight by the sum of the field,
  which makes the field sum to 1 when that sum is finite and not zero. The weight of a
  cell without an entry is changed by that division only.
\<close>

theorem MCT_boundary_updates:
  assumes "MCT_boundary U shape master w = Inr pnew"
  shows "\<exists>w1. length w1 = length w \<and>
     (\<forall>kv \<in> set master. \<exists>j < length w. cell U shape (length w) (fst kv) = Some j) \<and>
     (\<forall>j < length w. w1 ! j =
         foldl (*) (w ! j)
           (map ratio (filter (\<lambda>kv. cell U shape (length w) (fst kv) = Some j) master))) \<and>
     (\<forall>j < length w. (\<forall>kv \<in> set master. cell U shape (length w) (fst kv) \<noteq> Some j)
         \<longrightarrow> w1 ! j = w ! j) \<and>
     pnew = map (\<lambda>x. x / sum_list w1) w1 \<and>
     (\<forall>c. sum_list w1 = Fin c \<and> c \<noteq> 0 \<longrightarrow> sum_list pnew = Fin 1)"
proof -
  from assms obtain w1 where a: "apply_bnd U shape master w = Inr w1" and n: "pnew = normalise w1"
    by (auto simp: MCT_boundary_def bindE_Inr)
  note b = apply_bnd_Inr[OF a]
  have same: "w1 ! j = w ! j"
    if "j < length w" "\<forall>kv \<in> set master. cell U shape (length w) (fst kv) \<noteq> Some j" for j
  proof -
    from that(2) have "filter (\<lambda>kv. cell U shape (length w) (fst kv) = Some j) master = []"
      by (simp add: filter_empty_conv)
    with b that(1) show ?thesis by simp
  qed
  have "sum_list pnew = Fin 1" if "sum_list w1 = Fin c" "c \<noteq> 0" for c
    unfolding n using that by (rule normalise_sum)
  with b same n show ?thesis
    unfolding normalise_def by blast
qed

lemma boundary1:
  "MCT_boundary lib1 [2] [([0], Fin 1, Fin 2), ([1], Fin 3, Fin 2)] [Fin (1 / 2), Fin (1 / 2)]
     = Inr [Fin (1 / 4), Fin (3 / 4)]"
  by (simp add: instance_defs run_defs)

theorem MCT_boundary_updates_witness:
  "MCT_boundary lib1 [2] [([0], Fin 1, Fin 2), ([1], Fin 3, Fin 2)] [Fin (1 / 2), Fin (1 / 2)]
     = Inr [Fin (1 / 4), Fin (3 / 4)] \<and>
   (\<exists>w1. length w1 = length [Fin (1 / 2), Fin (1 / 2)] \<and>
     (\<forall>kv \<in> set [([0], Fin 1, Fin 2), ([1], Fin 3, Fin 2)].
        \<exists>j < length [Fin (1 / 2), Fin (1 / 2)].
          cell lib1 [2] (length [Fin (1 / 2), Fin (1 / 2)]) (fst kv) = Some j) \<and>
     (\<forall>j < length [Fin (1 / 2), Fin (1 / 2)]. w1 ! j =
         foldl (*) ([Fin (1 / 2), Fin (1 / 2)] ! j)
           (map ratio (filter (\<lambda>kv. cell lib1 [2] (length [Fin (1 / 2), Fin (1 / 2)]) (fst kv) = Some j)
              [([0], Fin 1, Fin 2), ([1], Fin 3, Fin 2)]))) \<and>
     (\<forall>j < length [Fin (1 / 2), Fin (1 / 2)].
        (\<forall>kv \<in> set [([0], Fin 1, Fin 2), ([1], Fin 3, Fin 2)].
           cell lib1 [2] (length [Fin (1 / 2), Fin (1 / 2)]) (fst kv) \<noteq> Some j)
         \<longrightarrow> w1 ! j = [Fin (1 / 2), Fin (1 / 2)] ! j) \<and>
     [Fin (1 / 4), Fin (3 / 4)] = map (\<lambda>x. x / sum_list w1) w1 \<and>
     (\<forall>c. sum_list w1 = Fin c \<and> c \<noteq> 0 \<longrightarrow> sum_list [Fin (1 / 4), Fin (3 / 4)] = Fin 1))"
  by (intro conjI boundary1 MCT_boundary_updates[OF boundary1])

text \<open>
  C8, as stated, fails: a trajectory of a single state has total elapsed time 0, its
  corners accumulate \<open>nan\<close>, and the field is \<open>nan\<close> after line 148: it does
  not sum to 1.
\<close>

theorem MCT_boundary_sum_counterexample:
  "MCT_sample lib1 args2 state0
     = Inr ([0], Suc 0, [([0], [[Fin 0]], [[Fin 0]], [([0], NaN, Fin 1), ([1], NaN, Fin 1)])]) \<and>
   MCT_boundary lib1 [2] [([0], NaN, Fin 1), ([1], NaN, Fin 1)] [Fin (1 / 2), Fin (1 / 2)]
     = Inr [NaN, NaN] \<and>
   sum_list [NaN, NaN] \<noteq> Fin 1"
  by (simp add: state0_def instance_defs run_defs enumerate_eq_zip numeral_2_eq_2 Let_def)

section \<open>No iteration allowed\<close>






section \<open>The convergence statistic\<close>

lemma MCT_classes_pairs:
  "MCT_classes U E (w, d, B, ids) gs = Inr (w', d', B', ids')
     \<Longrightarrow> B' = B + sum_list (pairs_reported U E w d gs)"
proof (induction gs arbitrary: w d B ids)
  case Nil
  then show ?case by (simp add: MCT_classes_def)
next
  case (Cons g gs)
  obtain a b c e where g: "g = (a, b, c, e)" by (cases g)
  from Cons.prems obtain w1 d1 b1 ids1
    where u: "update_Prob_Data U a (shape_of E) (grid E) b (eps E) w (eta_1 E) (eta_2 E) d
                = Inr (w1, d1, b1, ids1)"
      and r: "MCT_classes U E (w1, d1, B + b1, ids \<union> ids1) gs = Inr (w', d', B', ids')"
    by (auto simp: MCT_classes_def g bindE_Inr)
  from Cons.IH[OF r] u show ?case by (simp add: g)
qed

lemma MCT_iter_pairs:
  assumes "MCT_iter U E s = Inr s'"
  shows "B_pairs s' = B_pairs s + sum_list (iter_pairs U E s)"
proof -
  from assms obtain center_ids rng1 groups master ref1 data1 ref_ept1 groups1 w d2 B ids
    where sm: "MCT_sample U E s = Inr (center_ids, rng1, groups)"
      and rg: "MCT_registry U E s groups = Inr (master, ref1, data1, ref_ept1, groups1)"
      and cl: "MCT_classes U E (p s, data1, B_pairs s, {}) groups1 = Inr (w, d2, B, ids)"
      and b: "B_pairs s' = B"
    by (auto simp: MCT_iter_def MCT_update_def bindE_Inr)
  from MCT_classes_pairs[OF cl] sm rg b show ?thesis by (simp add: iter_pairs_def)
qed

lemma MCT_init_B: "MCT_init E rng0 = Inr s0 \<Longrightarrow> B_pairs s0 = 0"
  by (auto simp: MCT_init_def Let_def split: if_splits)

lemma MCT_after_counted:
  "MCT_after U E rng0 k s \<Longrightarrow> \<exists>bs. MCT_counted U E rng0 k s bs \<and> B_pairs s = sum_list bs"
proof (induction rule: MCT_after.induct)
  case (start s0)
  from start have "MCT_counted U E rng0 0 s0 []" by (rule MCT_counted.start)
  moreover from start have "B_pairs s0 = sum_list []" by (simp add: MCT_init_B)
  ultimately show ?case by blast
next
  case (iter k s s')
  then obtain bs where c: "MCT_counted U E rng0 k s bs" and b: "B_pairs s = sum_list bs"
    by blast
  from c iter.hyps(2,3,4) have "MCT_counted U E rng0 (Suc k) s' (bs @ iter_pairs U E s)"
    by (rule MCT_counted.iter)
  moreover from MCT_iter_pairs[OF iter.hyps(4)] b
  have "B_pairs s' = sum_list (bs @ iter_pairs U E s)" by simp
  ultimately show ?case by blast
qed

lemma MCT_after_avg_B:
  assumes "MCT_after U E rng0 k s" and "1 \<le> k"
  shows "avg s = Fin (real_of_int (B_pairs s) / real_of_int ((q E + 1) * L E * int k))"
  using assms
proof (induction rule: MCT_after.induct)
  case start
  then show ?case by simp
next
  case (iter k s s')
  from iter.hyps(1) have "i s = int k" by (rule MCT_after_i)
  with MCT_iter_counters(1)[OF iter.hyps(4)] have "i s' = int (Suc k)" by simp
  with MCT_iter_counters(3)[OF iter.hyps(4)] show ?case by simp
qed

text \<open>
  C2. After every completed iteration \<open>k \<ge> 1\<close> of the loop, the running convergence
  statistic equals the cumulative number of boundary pairs divided by
  \<open>(q + 1) * L * k\<close>: the numbers \<open>bs\<close> that the calls of \<^verbatim>\<open>update_Prob_Data\<close> have
  reported in the \<open>k\<close> iterations add up to \<^verbatim>\<open>B_pairs\<close>, and \<^verbatim>\<open>avg\<close> is their sum
  divided by \<open>(q + 1) * L * k\<close>.
\<close>

theorem MCT_after_avg:
  assumes "MCT_after U E rng0 k s" and "1 \<le> k"
  shows "\<exists>bs. MCT_counted U E rng0 k s bs \<and> B_pairs s = sum_list bs \<and>
           avg s = Fin (real_of_int (sum_list bs) / real_of_int ((q E + 1) * L E * int k))"
proof -
  from MCT_after_counted[OF assms(1)] obtain bs
    where "MCT_counted U E rng0 k s bs" and "B_pairs s = sum_list bs" by blast
  with MCT_after_avg_B[OF assms] show ?thesis by auto
qed

lemma run2b_iter: "MCT_iter lib2 args1 state0 = Inr state_b"
  by (simp add: MCT_iter_def MCT_sample_def MCT_update_def MCT_boundary_def ids_of_def
      shape_of_def LE_def LE_traj_def LE_step_def inbnds_of_def record_corner_def
      merge_entry_def bnd_of_def aggregate_def apply_bnd_def normalise_def row_dists_def
      np_norm_def np_maximum_def state0_def state_b_def
      instance_defs run_defs enumerate_eq_zip numeral_2_eq_2 Let_def)

lemma state_b_after: "MCT_after lib2 args1 (0::nat) (Suc 0) state_b"
  by (rule MCT_after.iter[OF MCT_after.start[OF init1] _ _ run2b_iter])
    (simp_all add: state0_def args1_def)

lemma state_b_pairs: "iter_pairs lib2 args1 state0 = [2]"
  by (simp add: iter_pairs_def MCT_sample_def ids_of_def
      shape_of_def LE_def LE_traj_def LE_step_def inbnds_of_def record_corner_def
      merge_entry_def bnd_of_def aggregate_def row_dists_def
      np_norm_def np_maximum_def state0_def 
      instance_defs run_defs enumerate_eq_zip numeral_2_eq_2 Let_def)


lemma state_b_counted: "MCT_counted lib2 args1 (0::nat) (Suc 0) state_b [2]"
proof -
  have "MCT_counted lib2 args1 (0::nat) (Suc 0) state_b ([] @ iter_pairs lib2 args1 state0)"
    by (rule MCT_counted.iter[OF MCT_counted.start[OF init1] _ _ run2b_iter])
      (simp_all add: state0_def args1_def)
  then show ?thesis by (simp add: state_b_pairs)
qed

theorem MCT_after_avg_witness:
  "MCT_after lib2 args1 (0::nat) (Suc 0) state_b \<and> 1 \<le> Suc 0 \<and>
   MCT_counted lib2 args1 (0::nat) (Suc 0) state_b [2] \<and>
   (\<exists>bs. MCT_counted lib2 args1 (0::nat) (Suc 0) state_b bs \<and> B_pairs state_b = sum_list bs \<and>
      avg state_b =
        Fin (real_of_int (sum_list bs) / real_of_int ((q args1 + 1) * L args1 * int (Suc 0)))) \<and>
   avg state_b = Fin (2 / 3)"
proof -
  have h: "1 \<le> Suc 0" by simp
  have a: "avg state_b = Fin (2 / 3)" by (simp add: state_b_def)
  show ?thesis
    by (intro conjI state_b_after h state_b_counted MCT_after_avg[OF state_b_after h] a)
qed

section \<open>A field of zero weights\<close>

lemma run3_sample: "MCT_sample lib3 args3 state0 = Inr ([0, 1], Suc 0, groups3)"
  by (simp add: state0_def groups3_def instance_defs run_defs enumerate_eq_zip numeral_2_eq_2)

lemma run3_update:
  "MCT_update lib3 args3 state0 groups3
     = Inr ([([0], Fin 4, Fin 4), ([1], Fin 4, Fin 4)], Some [[Fin 0]], Some [[Fin 1]], [],
            [Fin 0, Fin 0], 0, {})"
  by (simp add: state0_def groups3_def instance_defs run_defs)

lemma run3_apply:
  "apply_bnd lib3 (shape_of args3) [([0], Fin 4, Fin 4), ([1], Fin 4, Fin 4)] [Fin 0, Fin 0]
     = Inr [Fin 0, Fin 0]"
  by (simp add: instance_defs run_defs)


lemma MCT_iter_steps:
  assumes "MCT_sample U E s = Inr (center_ids, rng1, groups)"
    and "MCT_update U E s groups = Inr (master, ref1, ref_ept1, data1, w, B, ids)"
    and "apply_bnd U (shape_of E) master w = Inr w1"
    and "(q E + 1) * L E * (i s + 1) \<noteq> 0"
  shows "MCT_iter U E s =
     Inr \<lparr>p = normalise w1, ref = ref1, ref_ept = ref_ept1, data = data1,
          B_pairs = B, bndry_ids_master = bndry_ids_master s \<union> ids,
          starts = starts s \<union> set center_ids, i = i s + 1,
          avg = Fin (real_of_int B / real_of_int ((q E + 1) * L E * (i s + 1))), rng = rng1\<rparr>"
  using assms(4)
  by (simp add: MCT_iter_def assms(1,2,3) MCT_boundary_def bindE_def py_truediv_def)

lemma init3: "MCT_init args3 0 = Inr state0"
  by (simp add: state0_def instance_defs run_defs numeral_2_eq_2)

lemma run3_iter: "MCT_iter lib3 args3 state0 = Inr state3"
proof -
  have d: "(q args3 + 1) * L args3 * (i state0 + 1) \<noteq> 0"
    by (simp add: args3_def args1_def state0_def)
  show ?thesis
    unfolding MCT_iter_steps[OF run3_sample run3_update run3_apply d]
    by (simp add: normalise_def state3_def state0_def args3_def args1_def inf_signed_def
        zero_npfloat_def insert_commute)
qed

lemma run3_loop: "MCT_loop lib3 args3 state0 = Inr state3"
proof -
  have "i state0 < limit args3 \<and> avg state0 > AVG args3"
    by (simp add: state0_def args3_def args1_def)
  then have "MCT_loop lib3 args3 state0 = MCT_loop lib3 args3 state3"
    by (subst MCT_loop.simps) (simp add: run3_iter)
  also have "\<dots> = Inr state3"
    by (rule MCT_loop_exit) (simp add: state3_def args3_def args1_def)
  finally show ?thesis .
qed

text \<open>
  C6, as stated, fails: in the instance with \<^verbatim>\<open>eta_2 = 0\<close> both cells are sampled in
  the first round and their weights are shrunk to zero, so that all weights are zero
  after the update; \<^verbatim>\<open>MCT\<close> raises nothing, it returns its tuple.
\<close>

theorem MCT_zero_field_counterexample:
  "MCT_sample lib3 args3 state0 = Inr ([0, 1], Suc 0, groups3) \<and>
   MCT_update lib3 args3 state0 groups3
     = Inr ([([0], Fin 4, Fin 4), ([1], Fin 4, Fin 4)], Some [[Fin 0]], Some [[Fin 1]], [],
            [Fin 0, Fin 0], 0, {}) \<and>
   apply_bnd lib3 (shape_of args3) [([0], Fin 4, Fin 4), ([1], Fin 4, Fin 4)] [Fin 0, Fin 0]
     = Inr [Fin 0, Fin 0] \<and>
   MCT lib3 args3 0 =
     Inr [PyRef (Some [[Fin 0]]), PyDict [], PyArray [NaN, NaN], PyInt 1, PyFloat (Fin 0),
          PySet {}, PySet {0, 1}]"
proof -
  have "MCT lib3 args3 0 = Inr (MCT_return state3)"
    by (simp add: MCT_def init3 run3_loop bindE_def)
  then have "MCT lib3 args3 0 =
     Inr [PyRef (Some [[Fin 0]]), PyDict [], PyArray [NaN, NaN], PyInt 1, PyFloat (Fin 0),
          PySet {}, PySet {0, 1}]"
    by (simp add: MCT_return_def state3_def)
  then show ?thesis by (intro conjI run3_sample run3_update run3_apply)
qed

text \<open>
  C6, as amended. If all weights are zero after the update of an iteration (lines 113 to
  147), no error is raised for it: the module has no check of the weights. The
  iteration completes as any other (it raises only if \<open>(q + 1) * L * i\<close> is zero at line
  152): the registry, the data, the number of pairs, the sets of cells, the count, the
  statistic and the generator are those of the update, the field keeps its length, and
  the loop goes on from the new state.
\<close>

theorem MCT_iter_zero_field:
  assumes "MCT_sample U E s = Inr (center_ids, rng1, groups)"
    and "MCT_update U E s groups = Inr (master, ref1, ref_ept1, data1, w, B, ids)"
    and "apply_bnd U (shape_of E) master w = Inr w1"
    and "list_all (\<lambda>x. x = Fin 0) w1"
    and "(q E + 1) * L E * (i s + 1) \<noteq> 0"
    and "i s < limit E" and "avg s > AVG E"
  shows "\<exists>s'. MCT_iter U E s = Inr s' \<and> MCT_loop U E s = MCT_loop U E s' \<and>
      length (p s') = length w1 \<and> ref s' = ref1 \<and> ref_ept s' = ref_ept1 \<and> data s' = data1 \<and>
      B_pairs s' = B \<and> bndry_ids_master s' = bndry_ids_master s \<union> ids \<and>
      starts s' = starts s \<union> set center_ids \<and> i s' = i s + 1 \<and>
      avg s' = Fin (real_of_int B / real_of_int ((q E + 1) * L E * (i s + 1))) \<and> rng s' = rng1"
proof -
  let ?s' = "\<lparr>p = normalise w1, ref = ref1, ref_ept = ref_ept1, data = data1,
          B_pairs = B, bndry_ids_master = bndry_ids_master s \<union> ids,
          starts = starts s \<union> set center_ids, i = i s + 1,
          avg = Fin (real_of_int B / real_of_int ((q E + 1) * L E * (i s + 1))), rng = rng1\<rparr>"
  have it: "MCT_iter U E s = Inr ?s'" by (rule MCT_iter_steps[OF assms(1,2,3,5)])
  from assms(6,7) have lp: "MCT_loop U E s = MCT_loop U E ?s'"
    by (subst MCT_loop.simps) (simp add: it)
  show ?thesis
    by (rule exI[of _ ?s']) (simp add: it lp normalise_def)
qed

theorem MCT_iter_zero_field_witness:
  "MCT_sample lib3 args3 state0 = Inr ([0, 1], Suc 0, groups3) \<and>
   MCT_update lib3 args3 state0 groups3
     = Inr ([([0], Fin 4, Fin 4), ([1], Fin 4, Fin 4)], Some [[Fin 0]], Some [[Fin 1]], [],
            [Fin 0, Fin 0], 0, {}) \<and>
   apply_bnd lib3 (shape_of args3) [([0], Fin 4, Fin 4), ([1], Fin 4, Fin 4)] [Fin 0, Fin 0]
     = Inr [Fin 0, Fin 0] \<and>
   list_all (\<lambda>x. x = Fin 0) [Fin 0, Fin 0 :: npfloat] \<and>
   (q args3 + 1) * L args3 * (i state0 + 1) \<noteq> 0 \<and>
   i state0 < limit args3 \<and> avg state0 > AVG args3 \<and>
   (\<exists>s'. MCT_iter lib3 args3 state0 = Inr s' \<and>
      MCT_loop lib3 args3 state0 = MCT_loop lib3 args3 s' \<and>
      length (p s') = length [Fin 0, Fin 0 :: npfloat] \<and> ref s' = Some [[Fin 0]] \<and>
      ref_ept s' = Some [[Fin 1]] \<and> data s' = [] \<and>
      B_pairs s' = 0 \<and> bndry_ids_master s' = bndry_ids_master state0 \<union> {} \<and>
      starts s' = starts state0 \<union> set [0, 1] \<and> i s' = i state0 + 1 \<and>
      avg s' = Fin (real_of_int 0 / real_of_int ((q args3 + 1) * L args3 * (i state0 + 1))) \<and>
      rng s' = Suc 0)"
proof -
  have z: "list_all (\<lambda>x. x = Fin 0) [Fin 0, Fin 0 :: npfloat]" by simp
  have d: "(q args3 + 1) * L args3 * (i state0 + 1) \<noteq> 0"
    by (simp add: args3_def args1_def state0_def)
  have g: "i state0 < limit args3" "avg state0 > AVG args3"
    by (simp_all add: state0_def args3_def args1_def)
  show ?thesis
    by (intro conjI run3_sample run3_update run3_apply z d g
        MCT_iter_zero_field[OF run3_sample run3_update run3_apply z d g])
qed

end
